theory Spec2Isabelle
  imports Complex_Main "HOL-Library.Sublist"
begin

section \<open>The notebook's data\<close>

text \<open>
  The notebook \<^verbatim>\<open>01_adding_rag_to_an_agent_vdb_elasticsearch.ipynb\<close> is glue code over
  external libraries. Python values that the notebook handles are strings, \<^verbatim>\<open>None\<close>,
  booleans, integer literals, lists, its own two function objects, and opaque objects
  handed out by the libraries (documents, clients, indexes, tools, the agent, the reply).
\<close>

datatype pyfn = FnMultiply | FnAdd

datatype val =
    VNone
  | VBool bool
  | VInt int
  | VStr string
  | VList "val list"
  | VFn pyfn
  | VObj nat

text \<open>An exception raised inside a library call; the notebook defines none of its own.\<close>

datatype error = LibraryError string

text \<open>
  What a run of notebook code does, in program order: a read of an environment variable
  (\<^verbatim>\<open>os.getenv\<close>), a line written by \<^verbatim>\<open>print\<close>, a call into a library with its
  positional and keyword arguments, and an assignment to an attribute of the library's
  global \<^verbatim>\<open>Settings\<close> object. A method call \<^verbatim>\<open>obj.m(args)\<close> is the call named \<^verbatim>\<open>m\<close>
  whose first positional argument is the receiver.
\<close>

datatype event =
    Getenv string
  | Print val
  | Call string "val list" "(string \<times> val) list"
  | SetSettings string val

text \<open>
  The global state of the Python process that other steps can observe: \<^verbatim>\<open>os.environ\<close>
  and the attributes of the global \<^verbatim>\<open>Settings\<close> object.
\<close>

record state =
  environ :: "string \<rightharpoonup> string"
  settings :: "string \<rightharpoonup> val"

text \<open>
  The libraries are a parameter of the model. \<open>ext_call\<close> answers every library call with
  a value or an exception, as a function of the call's name and arguments (the cell makes
  no call twice with the same arguments). \<open>ext_write\<close> is what the call does to the
  global state, whatever its outcome: \<^verbatim>\<open>load_dotenv()\<close> rewrites \<^verbatim>\<open>os.environ\<close>, and
  any library call may assign attributes of \<^verbatim>\<open>Settings\<close>.
\<close>

record lib =
  ext_call :: "string \<Rightarrow> val list \<Rightarrow> (string \<times> val) list \<Rightarrow> error + val"
  ext_write :: "string \<Rightarrow> val list \<Rightarrow> (string \<times> val) list \<Rightarrow> state \<Rightarrow> state"

text \<open>
  A piece of notebook code maps the state to its outcome, the state it leaves and the
  events it produced, in order: \<open>Inl e\<close> is the uncaught exception \<open>e\<close>, which ends the
  cell; \<open>Inr v\<close> is the value \<open>v\<close>.
\<close>

type_synonym 'a prog = "state \<Rightarrow> (error + 'a) \<times> state \<times> event list"

definition preturn :: "'a \<Rightarrow> 'a prog" where
  "preturn v = (\<lambda>s. (Inr v, s, []))"

text \<open>Sequencing: the second part runs only when the first one returned.\<close>

definition pbind :: "'a prog \<Rightarrow> ('a \<Rightarrow> 'b prog) \<Rightarrow> 'b prog" where
  "pbind m f = (\<lambda>s.
     case m s of
       (Inl e, s', evs) \<Rightarrow> (Inl e, s', evs)
     | (Inr v, s', evs) \<Rightarrow> (case f v s' of (r, s'', evs') \<Rightarrow> (r, s'', evs @ evs')))"

definition outcome :: "'a prog \<Rightarrow> state \<Rightarrow> error + 'a" where
  "outcome m s = fst (m s)"

definition state_after :: "'a prog \<Rightarrow> state \<Rightarrow> state" where
  "state_after m s = fst (snd (m s))"

definition events_of :: "'a prog \<Rightarrow> state \<Rightarrow> event list" where
  "events_of m s = snd (snd (m s))"

text \<open>
  \<^verbatim>\<open>os.getenv(name)\<close>: the value of the variable, \<^verbatim>\<open>None\<close> when it is unset. Reading
  a variable and printing do not raise; only library calls do.
\<close>

definition os_getenv :: "(string \<rightharpoonup> string) \<Rightarrow> string \<Rightarrow> val" where
  "os_getenv env name = (case env name of None \<Rightarrow> VNone | Some v \<Rightarrow> VStr v)"

definition getenv :: "string \<Rightarrow> val prog" where
  "getenv name = (\<lambda>s. (Inr (os_getenv (environ s) name), s, [Getenv name]))"

definition print :: "val \<Rightarrow> unit prog" where
  "print v = (\<lambda>s. (Inr (), s, [Print v]))"

text \<open>A library call: its answer, and the global state as the library leaves it.\<close>

definition call :: "lib \<Rightarrow> string \<Rightarrow> val list \<Rightarrow> (string \<times> val) list \<Rightarrow> val prog" where
  "call L name args kwargs =
     (\<lambda>s. (ext_call L name args kwargs, ext_write L name args kwargs s,
           [Call name args kwargs]))"

text \<open>The assignment \<^verbatim>\<open>Settings.attr = v\<close>.\<close>

definition set_settings :: "string \<Rightarrow> val \<Rightarrow> unit prog" where
  "set_settings attr v =
     (\<lambda>s. (Inr (), s\<lparr>settings := (settings s)(attr \<mapsto> v)\<rparr>, [SetSettings attr v]))"

section \<open>Python floats\<close>

text \<open>
  A Python float is an IEEE 754 binary64 number: \<open>Finite m e\<close> is the number
  \<open>m * 2 ^ e\<close>, beside the two infinities and not-a-number. The sign of a zero and the
  payload of a NaN are left out: neither changes what \<^verbatim>\<open>+\<close>, \<^verbatim>\<open>*\<close> and \<^verbatim>\<open>==\<close> give.
\<close>

datatype pyfloat = Finite int int | PosInf | NegInf | NaN

text \<open>The number of binary digits of a positive integer (\<^verbatim>\<open>int.bit_length\<close>).\<close>

function bit_length :: "int \<Rightarrow> nat" where
  "bit_length n = (if n \<le> 0 then 0 else Suc (bit_length (n div 2)))"
  by auto
termination
  by (relation "measure nat") auto

text \<open>
  \<open>pack64 q t\<close> is the float \<open>q * 2 ^ t\<close> for a significand \<open>q\<close> of at most 53 bits,
  or exactly \<open>2 ^ 53\<close> after a carry: it overflows to an infinity from \<open>2 ^ 1024\<close> on.
\<close>

definition pack64 :: "int \<Rightarrow> int \<Rightarrow> pyfloat" where
  "pack64 q t =
     (if q = 0 then Finite 0 0
      else let q1 = (if \<bar>q\<bar> = 2 ^ 53 then q div 2 else q);
               t1 = (if \<bar>q\<bar> = 2 ^ 53 then t + 1 else t)
           in if int (bit_length \<bar>q1\<bar>) + t1 > 1024
              then (if q > 0 then PosInf else NegInf)
              else Finite q1 t1)"

text \<open>
  Rounding of the exact number \<open>m * 2 ^ e\<close> to the nearest binary64 number, ties to the
  even significand: 53 significant bits, and no bit below \<open>2 ^ - 1074\<close>.
\<close>

definition round64 :: "int \<Rightarrow> int \<Rightarrow> pyfloat" where
  "round64 m e =
     (let n = int (bit_length \<bar>m\<bar>);
          t = max (n + e - 53) (- 1074)
      in if t \<le> e then pack64 (m * 2 ^ nat (e - t)) t
         else let k = nat (t - e);
                  q = \<bar>m\<bar> div 2 ^ k;
                  r = \<bar>m\<bar> mod 2 ^ k;
                  q' = (if 2 * r > 2 ^ k \<or> (2 * r = 2 ^ k \<and> odd q) then q + 1 else q)
              in pack64 (sgn m * q') t)"

fun float_sign :: "pyfloat \<Rightarrow> int" where
  "float_sign (Finite m e) = sgn m"
| "float_sign PosInf = 1"
| "float_sign NegInf = - 1"
| "float_sign NaN = 0"

fun is_finite :: "pyfloat \<Rightarrow> bool" where
  "is_finite (Finite m e) = True"
| "is_finite _ = False"

text \<open>Python's \<^verbatim>\<open>a + b\<close> on floats: the exact sum, rounded.\<close>

fun float_add :: "pyfloat \<Rightarrow> pyfloat \<Rightarrow> pyfloat" where
  "float_add (Finite m1 e1) (Finite m2 e2) =
     round64 (m1 * 2 ^ nat (e1 - min e1 e2) + m2 * 2 ^ nat (e2 - min e1 e2)) (min e1 e2)"
| "float_add NaN _ = NaN"
| "float_add _ NaN = NaN"
| "float_add PosInf NegInf = NaN"
| "float_add NegInf PosInf = NaN"
| "float_add PosInf _ = PosInf"
| "float_add _ PosInf = PosInf"
| "float_add NegInf _ = NegInf"
| "float_add _ NegInf = NegInf"

text \<open>Python's \<^verbatim>\<open>a * b\<close> on floats: the exact product, rounded; infinity times zero is NaN.\<close>

fun float_mul :: "pyfloat \<Rightarrow> pyfloat \<Rightarrow> pyfloat" where
  "float_mul (Finite m1 e1) (Finite m2 e2) = round64 (m1 * m2) (e1 + e2)"
| "float_mul NaN _ = NaN"
| "float_mul _ NaN = NaN"
| "float_mul a b =
     (if float_sign a * float_sign b = 0 then NaN
      else if float_sign a * float_sign b > 0 then PosInf else NegInf)"

text \<open>Python's \<^verbatim>\<open>a == b\<close> on floats: equality of the numbers; NaN equals nothing.\<close>

fun float_eq :: "pyfloat \<Rightarrow> pyfloat \<Rightarrow> bool" where
  "float_eq (Finite m1 e1) (Finite m2 e2) =
     (m1 * 2 ^ nat (e1 - min e1 e2) = m2 * 2 ^ nat (e2 - min e1 e2))"
| "float_eq PosInf PosInf = True"
| "float_eq NegInf NegInf = True"
| "float_eq _ _ = False"

text \<open>\<^verbatim>\<open>float(n)\<close> for an integer \<open>n\<close>, so that \<^verbatim>\<open>1e16\<close> is \<open>float_of_int (10 ^ 16)\<close>.\<close>

definition float_of_int :: "int \<Rightarrow> pyfloat" where
  "float_of_int n = round64 n 0"

text \<open>
  A number \<open>m * 2 ^ e\<close> written as a binary64 number: zero, or at most 53 significant
  bits, the last one not below \<open>2 ^ - 1074\<close>, and less than \<open>2 ^ 1024\<close>.
\<close>

definition binary64 :: "int \<Rightarrow> int \<Rightarrow> bool" where
  "binary64 m e =
     (m = 0 \<or> (bit_length \<bar>m\<bar> \<le> 53 \<and> - 1074 \<le> e \<and> int (bit_length \<bar>m\<bar>) + e \<le> 1024))"

section \<open>The notebook's functions\<close>

text \<open>
  \<^verbatim>\<open>
  def load_documents(pdf_folder: str):
      reader = SimpleDirectoryReader(pdf_folder, required_exts=[".pdf"])
      documents = reader.load_data()
      return documents
  \<close>
\<close>

definition load_documents :: "lib \<Rightarrow> string \<Rightarrow> val prog" where
  "load_documents L pdf_folder =
     pbind (call L ''SimpleDirectoryReader'' [VStr pdf_folder]
              [(''required_exts'', VList [VStr ''.pdf''])]) (\<lambda>reader.
     pbind (call L ''load_data'' [reader] []) (\<lambda>documents.
     preturn documents))"

text \<open>
  \<^verbatim>\<open>
  def initialize_elasticsearch():
      host = os.getenv("ELASTIC_HOST")
      username = os.getenv("ELASTIC_USERNAME")
      password = os.getenv("ELASTIC_PASSWORD")
      index_name = os.getenv("INDEX_NAME")
      vector_store = ElasticsearchStore(
          index_name=index_name, es_url=host, es_user=username, es_password=password
      )
      return vector_store
  \<close>
\<close>

definition initialize_elasticsearch :: "lib \<Rightarrow> val prog" where
  "initialize_elasticsearch L =
     pbind (getenv ''ELASTIC_HOST'') (\<lambda>host.
     pbind (getenv ''ELASTIC_USERNAME'') (\<lambda>username.
     pbind (getenv ''ELASTIC_PASSWORD'') (\<lambda>password.
     pbind (getenv ''INDEX_NAME'') (\<lambda>index_name.
     pbind (call L ''ElasticsearchStore'' []
              [(''index_name'', index_name), (''es_url'', host),
               (''es_user'', username), (''es_password'', password)]) (\<lambda>vector_store.
     preturn vector_store)))))"

text \<open>
  \<^verbatim>\<open>
  def create_index(documents, vector_store):
      boto3_bedrock_client = boto3.client(service_name="bedrock-runtime")
      bedrock_embedding_model = BedrockEmbedding(
          model_name=os.getenv("AWS_BEDROCK_EMBEDDING_MODEL"), client=boto3_bedrock_client,)
      Settings.embed_model = bedrock_embedding_model
      storage_context = StorageContext.from_defaults(vector_store=vector_store)
      index = VectorStoreIndex.from_documents(
          documents, storage_context=storage_context, show_progress=True)
      return index
  \<close>
\<close>

definition create_index :: "lib \<Rightarrow> val \<Rightarrow> val \<Rightarrow> val prog" where
  "create_index L documents vector_store =
     pbind (call L ''boto3.client'' [] [(''service_name'', VStr ''bedrock-runtime'')])
       (\<lambda>boto3_bedrock_client.
     pbind (getenv ''AWS_BEDROCK_EMBEDDING_MODEL'') (\<lambda>model_name.
     pbind (call L ''BedrockEmbedding'' []
              [(''model_name'', model_name), (''client'', boto3_bedrock_client)])
       (\<lambda>bedrock_embedding_model.
     pbind (set_settings ''embed_model'' bedrock_embedding_model) (\<lambda>_.
     pbind (call L ''StorageContext.from_defaults'' [] [(''vector_store'', vector_store)])
       (\<lambda>storage_context.
     pbind (call L ''VectorStoreIndex.from_documents'' [documents]
              [(''storage_context'', storage_context), (''show_progress'', VBool True)])
       (\<lambda>index.
     preturn index))))))"

text \<open>
  \<^verbatim>\<open>
  def multiply(a: float, b: float) -> float:
      return a * b

  def add(a: float, b: float) -> float:
      return a + b
  \<close>
  The arguments are Python floats, and \<^verbatim>\<open>*\<close> and \<^verbatim>\<open>+\<close> are the float operations
  defined in the section on floats.
\<close>

definition multiply :: "pyfloat \<Rightarrow> pyfloat \<Rightarrow> pyfloat" where
  "multiply a b = float_mul a b"

definition add :: "pyfloat \<Rightarrow> pyfloat \<Rightarrow> pyfloat" where
  "add a b = float_add a b"

text \<open>The function a function object stands for.\<close>

fun pyfn_apply :: "pyfn \<Rightarrow> pyfloat \<Rightarrow> pyfloat \<Rightarrow> pyfloat" where
  "pyfn_apply FnMultiply = multiply"
| "pyfn_apply FnAdd = add"

text \<open>
  \<^verbatim>\<open>
  def get_budget_tool(index, name, description):
      query_engine = index.as_query_engine()
      budget_tool = QueryEngineTool.from_defaults(
          query_engine, name=name, description=description)
      return budget_tool
  \<close>
\<close>

definition get_budget_tool :: "lib \<Rightarrow> val \<Rightarrow> val \<Rightarrow> val \<Rightarrow> val prog" where
  "get_budget_tool L index name description =
     pbind (call L ''as_query_engine'' [index] []) (\<lambda>query_engine.
     pbind (call L ''QueryEngineTool.from_defaults'' [query_engine]
              [(''name'', name), (''description'', description)]) (\<lambda>budget_tool.
     preturn budget_tool))"

text \<open>
  \<^verbatim>\<open>
  def get_react_agent(multiply_tool, add_tool, budget_tool):
      agent = ReActAgent.from_tools(
          [multiply_tool, add_tool, budget_tool], verbose=True)
      return agent
  \<close>
\<close>

definition get_react_agent :: "lib \<Rightarrow> val \<Rightarrow> val \<Rightarrow> val \<Rightarrow> val prog" where
  "get_react_agent L multiply_tool add_tool budget_tool =
     pbind (call L ''ReActAgent.from_tools'' [VList [multiply_tool, add_tool, budget_tool]]
              [(''verbose'', VBool True)]) (\<lambda>agent.
     preturn agent)"

section \<open>The execution-flow cell\<close>

definition budget_tool_name :: string where
  "budget_tool_name = ''canadian_budget_2023''"

definition budget_tool_description :: string where
  "budget_tool_description =
     ''A RAG engine with some basic facts about the 2023 Canadian federal budget.''"

definition chat_question :: string where
  "chat_question =
     ''What is the total amount of the 2023 Canadian federal budget multiplied by 3? Go step by step, using a tool to do any math.''"

text \<open>
  The last code cell, statement by statement. Its last statement is the assignment
  \<^verbatim>\<open>response = agent.chat(...)\<close>: the cell ends there, and the reply it bound to
  \<^verbatim>\<open>response\<close> is the value the model returns.
\<close>

definition main :: "lib \<Rightarrow> val prog" where
  "main L =
     pbind (call L ''load_dotenv'' [] []) (\<lambda>_.
     pbind (getenv ''AWS_BEDROCK_LLM_MODEL'') (\<lambda>model.
     pbind (call L ''Bedrock'' []
              [(''model'', model), (''temperature'', VInt 0), (''max_tokens'', VInt 1000)])
       (\<lambda>llm.
     pbind (set_settings ''llm'' llm) (\<lambda>_.
     pbind (print (VStr ''Loading documents...'')) (\<lambda>_.
     pbind (load_documents L ''./data'') (\<lambda>documents.
     pbind (print documents) (\<lambda>_.
     pbind (print (VStr ''Initializing OpenSearch...'')) (\<lambda>_.
     pbind (initialize_elasticsearch L) (\<lambda>vector_store.
     pbind (print vector_store) (\<lambda>_.
     pbind (print (VStr ''Creating index and storing embeddings...'')) (\<lambda>_.
     pbind (create_index L documents vector_store) (\<lambda>index.
     pbind (print (VStr ''Get Basic Maths Functions and Query Engine Tools...'')) (\<lambda>_.
     pbind (call L ''FunctionTool.from_defaults'' [] [(''fn'', VFn FnMultiply)])
       (\<lambda>multiply_tool.
     pbind (call L ''FunctionTool.from_defaults'' [] [(''fn'', VFn FnAdd)]) (\<lambda>add_tool.
     pbind (get_budget_tool L index (VStr budget_tool_name) (VStr budget_tool_description))
       (\<lambda>budget_tool.
     pbind (print budget_tool) (\<lambda>_.
     pbind (print (VStr ''Initialize and Get ReAct Agent for Chat...'')) (\<lambda>_.
     pbind (get_react_agent L multiply_tool add_tool budget_tool) (\<lambda>agent.
     pbind (call L ''chat'' [agent, VStr chat_question] []) (\<lambda>response.
     preturn response))))))))))))))))))))"

section \<open>Observations on runs\<close>

fun event_name :: "event \<Rightarrow> string" where
  "event_name (Getenv _) = ''os.getenv''"
| "event_name (Print _) = ''print''"
| "event_name (Call n _ _) = n"
| "event_name (SetSettings attr _) = ''Settings.'' @ attr"

text \<open>The names of the environment variables read, in order.\<close>

fun env_reads :: "event list \<Rightarrow> string list" where
  "env_reads [] = []"
| "env_reads (Getenv n # evs) = n # env_reads evs"
| "env_reads (_ # evs) = env_reads evs"

text \<open>The arguments of the calls of one library function, in order.\<close>

fun calls_named :: "string \<Rightarrow> event list \<Rightarrow> (val list \<times> (string \<times> val) list) list" where
  "calls_named n [] = []"
| "calls_named n (Call m a k # evs) =
     (if m = n then (a, k) # calls_named n evs else calls_named n evs)"
| "calls_named n (_ # evs) = calls_named n evs"

text \<open>A call event whose library call returned a value; reads and prints always do.\<close>

fun call_returned :: "lib \<Rightarrow> event \<Rightarrow> bool" where
  "call_returned L (Call n a k) = (case ext_call L n a k of Inl _ \<Rightarrow> False | Inr _ \<Rightarrow> True)"
| "call_returned L _ = True"

text \<open>A call event whose library call raised \<open>e\<close>.\<close>

fun call_raised :: "lib \<Rightarrow> error \<Rightarrow> event \<Rightarrow> bool" where
  "call_raised L e (Call n a k) = (ext_call L n a k = Inl e)"
| "call_raised L e _ = False"

text \<open>
  A run that ended in the exception \<open>e\<close> stopped at the call that raised it: that call is
  the last event, and every call before it returned.
\<close>

definition stopped_at_raise :: "lib \<Rightarrow> error \<Rightarrow> event list \<Rightarrow> bool" where
  "stopped_at_raise L e evs =
     (evs \<noteq> [] \<and> call_raised L e (last evs) \<and> list_all (call_returned L) (butlast evs))"

definition run_propagates :: "lib \<Rightarrow> 'a prog \<Rightarrow> state \<Rightarrow> bool" where
  "run_propagates L m s =
     (case outcome m s of
        Inl e \<Rightarrow> stopped_at_raise L e (events_of m s)
      | Inr _ \<Rightarrow> list_all (call_returned L) (events_of m s))"

definition propagates :: "lib \<Rightarrow> 'a prog \<Rightarrow> bool" where
  "propagates L m = (\<forall>s. run_propagates L m s)"

definition run_names_within :: "'a prog \<Rightarrow> string list \<Rightarrow> state \<Rightarrow> bool" where
  "run_names_within m ns s =
     (case outcome m s of
        Inl _ \<Rightarrow> prefix (map event_name (events_of m s)) ns
      | Inr _ \<Rightarrow> map event_name (events_of m s) = ns)"

definition names_within :: "'a prog \<Rightarrow> string list \<Rightarrow> bool" where
  "names_within m ns = (\<forall>s. run_names_within m ns s)"

definition all_events :: "(event \<Rightarrow> bool) \<Rightarrow> 'a prog \<Rightarrow> bool" where
  "all_events P m = (\<forall>s. list_all P (events_of m s))"

text \<open>The names of the events of the execution-flow cell when every call returns.\<close>

definition main_event_names :: "string list" where
  "main_event_names =
     [''load_dotenv'', ''os.getenv'', ''Bedrock'', ''Settings.llm'', ''print'',
      ''SimpleDirectoryReader'', ''load_data'', ''print'', ''print'',
      ''os.getenv'', ''os.getenv'', ''os.getenv'', ''os.getenv'', ''ElasticsearchStore'',
      ''print'', ''print'',
      ''boto3.client'', ''os.getenv'', ''BedrockEmbedding'', ''Settings.embed_model'',
      ''StorageContext.from_defaults'',
      ''VectorStoreIndex.from_documents'', ''print'',
      ''FunctionTool.from_defaults'', ''FunctionTool.from_defaults'',
      ''as_query_engine'', ''QueryEngineTool.from_defaults'', ''print'', ''print'',
      ''ReActAgent.from_tools'', ''chat'']"

definition config_vars :: "string list" where
  "config_vars =
     [''ELASTIC_HOST'', ''ELASTIC_USERNAME'', ''ELASTIC_PASSWORD'', ''INDEX_NAME'',
      ''AWS_BEDROCK_EMBEDDING_MODEL'', ''AWS_BEDROCK_LLM_MODEL'']"

text \<open>A call of the library function \<open>n\<close> has arguments that satisfy \<open>Q\<close>.\<close>

fun call_args_satisfy ::
  "string \<Rightarrow> (val list \<Rightarrow> (string \<times> val) list \<Rightarrow> bool) \<Rightarrow> event \<Rightarrow> bool" where
  "call_args_satisfy n Q (Call m a k) = (m = n \<longrightarrow> Q a k)"
| "call_args_satisfy n Q _ = True"

fun reads_config_var :: "event \<Rightarrow> bool" where
  "reads_config_var (Getenv n) = (n \<in> set config_vars)"
| "reads_config_var _ = True"

text \<open>
  The arguments of the agent constructor: one list of three tools, which are what the
  two \<^verbatim>\<open>FunctionTool.from_defaults\<close> calls on \<^verbatim>\<open>multiply\<close> and \<^verbatim>\<open>add\<close> and a
  \<^verbatim>\<open>QueryEngineTool.from_defaults\<close> call returned, and \<^verbatim>\<open>verbose=True\<close>.
\<close>

definition three_tools :: "lib \<Rightarrow> val list \<Rightarrow> (string \<times> val) list \<Rightarrow> bool" where
  "three_tools L a k =
     (\<exists>multiply_tool add_tool budget_tool query_engine.
        a = [VList [multiply_tool, add_tool, budget_tool]]
      \<and> k = [(''verbose'', VBool True)]
      \<and> ext_call L ''FunctionTool.from_defaults'' [] [(''fn'', VFn FnMultiply)]
          = Inr multiply_tool
      \<and> ext_call L ''FunctionTool.from_defaults'' [] [(''fn'', VFn FnAdd)] = Inr add_tool
      \<and> ext_call L ''QueryEngineTool.from_defaults'' [query_engine]
          [(''name'', VStr budget_tool_name), (''description'', VStr budget_tool_description)]
          = Inr budget_tool)"

definition reader_on_data :: "val list \<Rightarrow> (string \<times> val) list \<Rightarrow> bool" where
  "reader_on_data a k =
     (a = [VStr ''./data''] \<and> k = [(''required_exts'', VList [VStr ''.pdf''])])"

text \<open>The assignments to \<^verbatim>\<open>Settings\<close> that notebook code made, in order.\<close>

fun settings_writes :: "event list \<Rightarrow> (string \<times> val) list" where
  "settings_writes [] = []"
| "settings_writes (SetSettings attr v # evs) = (attr, v) # settings_writes evs"
| "settings_writes (_ # evs) = settings_writes evs"





section \<open>Sample libraries and states\<close>

text \<open>
  A library in which every call returns: \<^verbatim>\<open>load_dotenv\<close> returns \<^verbatim>\<open>True\<close>, every
  other call a fresh object. Its \<^verbatim>\<open>.env\<close> file sets two variables, and variables that
  are already set keep their values; building the index makes the library fill in the
  attribute \<^verbatim>\<open>callback_manager\<close> of \<^verbatim>\<open>Settings\<close>.
\<close>

definition demo_handles :: "(string \<times> nat) list" where
  "demo_handles =
     [(''Bedrock'', 1), (''SimpleDirectoryReader'', 2), (''load_data'', 3),
      (''ElasticsearchStore'', 4), (''boto3.client'', 5), (''BedrockEmbedding'', 6),
      (''StorageContext.from_defaults'', 7), (''VectorStoreIndex.from_documents'', 8),
      (''FunctionTool.from_defaults'', 9), (''as_query_engine'', 11),
      (''QueryEngineTool.from_defaults'', 12), (''ReActAgent.from_tools'', 13),
      (''chat'', 14)]"

definition demo_call :: "string \<Rightarrow> val list \<Rightarrow> (string \<times> val) list \<Rightarrow> error + val" where
  "demo_call n a k =
     (if n = ''load_dotenv'' then Inr (VBool True)
      else if n = ''FunctionTool.from_defaults'' \<and> k = [(''fn'', VFn FnAdd)]
      then Inr (VObj 10)
      else case map_of demo_handles n of
             None \<Rightarrow> Inl (LibraryError ''AttributeError'')
           | Some h \<Rightarrow> Inr (VObj h))"

definition demo_dotenv_file :: "(string \<times> string) list" where
  "demo_dotenv_file =
     [(''INDEX_NAME'', ''budget_2023''), (''ELASTIC_HOST'', ''http://localhost:9200'')]"

definition demo_write :: "string \<Rightarrow> val list \<Rightarrow> (string \<times> val) list \<Rightarrow> state \<Rightarrow> state" where
  "demo_write n a k s =
     (if n = ''load_dotenv'' then s\<lparr>environ := map_of demo_dotenv_file ++ environ s\<rparr>
      else if n = ''VectorStoreIndex.from_documents''
      then s\<lparr>settings := (settings s)(''callback_manager'' \<mapsto> VObj 15)\<rparr>
      else s)"

definition demo_lib :: lib where
  "demo_lib = \<lparr>ext_call = demo_call, ext_write = demo_write\<rparr>"

text \<open>The same library with a search engine that cannot be reached.\<close>

definition unreachable_lib :: lib where
  "unreachable_lib =
     \<lparr>ext_call = (\<lambda>n a k. if n = ''ElasticsearchStore''
                          then Inl (LibraryError ''ConnectionError'')
                          else demo_call n a k),
      ext_write = demo_write\<rparr>"

text \<open>A process whose environment lacks \<^verbatim>\<open>INDEX_NAME\<close>, before any assignment to Settings.\<close>

definition demo_state :: state where
  "demo_state =
     \<lparr>environ =
        map_of [(''ELASTIC_HOST'', ''http://elastic:9200''),
                (''ELASTIC_USERNAME'', ''elastic''),
                (''ELASTIC_PASSWORD'', ''changeme''),
                (''AWS_BEDROCK_EMBEDDING_MODEL'', ''amazon.titan-embed-text-v1''),
                (''AWS_BEDROCK_LLM_MODEL'', ''amazon.titan-text-express-v1'')],
      settings = Map.empty\<rparr>"

text \<open>The same process after \<^verbatim>\<open>load_dotenv()\<close>: all six variables are set.\<close>

definition loaded_state :: state where
  "loaded_state = demo_state\<lparr>environ := map_of demo_dotenv_file ++ environ demo_state\<rparr>"

text \<open>The events of the execution-flow cell with the sample library, from \<open>demo_state\<close>.\<close>

definition demo_events :: "event list" where
  "demo_events =
      [Call ''load_dotenv'' [] [],
       Getenv ''AWS_BEDROCK_LLM_MODEL'',
       Call ''Bedrock'' []
         [(''model'', VStr ''amazon.titan-text-express-v1''),
          (''temperature'', VInt 0), (''max_tokens'', VInt 1000)],
       SetSettings ''llm'' (VObj 1),
       Print (VStr ''Loading documents...''),
       Call ''SimpleDirectoryReader'' [VStr ''./data'']
         [(''required_exts'', VList [VStr ''.pdf''])],
       Call ''load_data'' [VObj 2] [],
       Print (VObj 3),
       Print (VStr ''Initializing OpenSearch...''),
       Getenv ''ELASTIC_HOST'', Getenv ''ELASTIC_USERNAME'', Getenv ''ELASTIC_PASSWORD'',
       Getenv ''INDEX_NAME'',
       Call ''ElasticsearchStore'' []
         [(''index_name'', VStr ''budget_2023''),
          (''es_url'', VStr ''http://elastic:9200''),
          (''es_user'', VStr ''elastic''),
          (''es_password'', VStr ''changeme'')],
       Print (VObj 4),
       Print (VStr ''Creating index and storing embeddings...''),
       Call ''boto3.client'' [] [(''service_name'', VStr ''bedrock-runtime'')],
       Getenv ''AWS_BEDROCK_EMBEDDING_MODEL'',
       Call ''BedrockEmbedding'' []
         [(''model_name'', VStr ''amazon.titan-embed-text-v1''), (''client'', VObj 5)],
       SetSettings ''embed_model'' (VObj 6),
       Call ''StorageContext.from_defaults'' [] [(''vector_store'', VObj 4)],
       Call ''VectorStoreIndex.from_documents'' [VObj 3]
         [(''storage_context'', VObj 7), (''show_progress'', VBool True)],
       Print (VStr ''Get Basic Maths Functions and Query Engine Tools...''),
       Call ''FunctionTool.from_defaults'' [] [(''fn'', VFn FnMultiply)],
       Call ''FunctionTool.from_defaults'' [] [(''fn'', VFn FnAdd)],
       Call ''as_query_engine'' [VObj 8] [],
       Call ''QueryEngineTool.from_defaults'' [VObj 11]
         [(''name'', VStr budget_tool_name), (''description'', VStr budget_tool_description)],
       Print (VObj 12),
       Print (VStr ''Initialize and Get ReAct Agent for Chat...''),
       Call ''ReActAgent.from_tools'' [VList [VObj 9, VObj 10, VObj 12]]
         [(''verbose'', VBool True)],
       Call ''chat'' [VObj 13, VStr chat_question] []]"

text \<open>With the unreachable search engine the run ends at the fourteenth event.\<close>

definition unreachable_events :: "event list" where
  "unreachable_events = take 14 demo_events"

section \<open>Facts about floats\<close>

declare bit_length.simps [simp del]

lemma bit_length_0: "bit_length 0 = 0"
  by (subst bit_length.simps) simp

lemma bit_length_pos: "0 < n \<Longrightarrow> bit_length n = Suc (bit_length (n div 2))"
  by (subst bit_length.simps) simp

lemma bit_length_eq:
  "2 ^ k \<le> n \<Longrightarrow> n < 2 ^ Suc k \<Longrightarrow> bit_length n = Suc k"
proof (induction k arbitrary: n)
  case 0
  then have "n = 1" by simp
  then show ?case by (simp add: bit_length_pos bit_length_0)
next
  case (Suc k)
  have "(0::int) < 2 ^ Suc k" by simp
  with Suc.prems(1) have pos: "0 < n" by linarith
  from Suc.prems have "2 ^ k \<le> n div 2" "n div 2 < 2 ^ Suc k" by simp_all
  then have "bit_length (n div 2) = Suc k" by (rule Suc.IH)
  with pos show ?case by (simp add: bit_length_pos)
qed

lemma bit_length_double: "0 < n \<Longrightarrow> bit_length (2 * n) = Suc (bit_length n)"
  by (simp add: bit_length_pos[of "2 * n"])

lemma bit_length_shift: "0 < n \<Longrightarrow> bit_length (n * 2 ^ k) = bit_length n + k"
proof (induction k)
  case 0
  then show ?case by simp
next
  case (Suc k)
  then have "0 < n * 2 ^ k" by simp
  then have "bit_length (2 * (n * 2 ^ k)) = Suc (bit_length (n * 2 ^ k))"
    by (rule bit_length_double)
  with Suc show ?case by (simp add: mult.commute mult.left_commute)
qed

lemma less_power_bit_length: "0 \<le> n \<Longrightarrow> n < 2 ^ bit_length n"
proof (induction n rule: bit_length.induct)
  case (1 n)
  show ?case
  proof (cases "n \<le> 0")
    case True
    with 1 show ?thesis by simp
  next
    case False
    then have pos: "0 < n" by simp
    with 1 have "n div 2 < 2 ^ bit_length (n div 2)" by simp
    then have "n < 2 * 2 ^ bit_length (n div 2)" by linarith
    with pos show ?thesis by (simp add: bit_length_pos)
  qed
qed



lemma pack64_not_nan: "pack64 q t \<noteq> NaN"
  by (simp add: pack64_def Let_def)

lemma round64_not_nan: "round64 m e \<noteq> NaN"
  by (simp add: round64_def Let_def pack64_not_nan)

lemma float_eq_refl: "float_eq a a \<longleftrightarrow> a \<noteq> NaN"
  by (cases a) simp_all

lemma float_add_finite: "is_finite a \<Longrightarrow> is_finite b \<Longrightarrow> float_add a b \<noteq> NaN"
  by (cases a; cases b) (simp_all add: round64_not_nan)

lemma float_mul_finite: "is_finite a \<Longrightarrow> is_finite b \<Longrightarrow> float_mul a b \<noteq> NaN"
  by (cases a; cases b) (simp_all add: round64_not_nan)

lemma round64_zero: "float_eq (round64 0 e) (Finite 0 e)"
  by (simp add: round64_def pack64_def Let_def bit_length_0)

lemma round64_exact:
  assumes "binary64 m e"
  shows "float_eq (round64 m e) (Finite m e)"
proof (cases "m = 0")
  case True
  then show ?thesis by (simp add: round64_zero)
next
  case False
  with assms have n53: "bit_length \<bar>m\<bar> \<le> 53" and lo: "- 1074 \<le> e"
    and hi: "int (bit_length \<bar>m\<bar>) + e \<le> 1024"
    by (simp_all add: binary64_def)
  define t where "t = max (int (bit_length \<bar>m\<bar>) + e - 53) (- 1074)"
  define k where "k = nat (e - t)"
  from n53 lo have te: "t \<le> e" by (simp add: t_def)
  then have kt: "int k = e - t" by (simp add: k_def)
  from False have mpos: "0 < \<bar>m\<bar>" by simp
  have abs: "\<bar>m * 2 ^ k\<bar> = \<bar>m\<bar> * 2 ^ k" by (simp add: abs_mult)
  from mpos have bl: "bit_length \<bar>m * 2 ^ k\<bar> = bit_length \<bar>m\<bar> + k"
    by (simp add: abs bit_length_shift)
  have "int (bit_length \<bar>m\<bar>) + int k \<le> 53"
    using kt by (simp add: t_def)
  then have le53: "bit_length \<bar>m * 2 ^ k\<bar> \<le> 53" using bl by simp
  have "\<bar>m * 2 ^ k\<bar> < 2 ^ bit_length \<bar>m * 2 ^ k\<bar>"
    by (rule less_power_bit_length) simp
  also have "\<dots> \<le> (2::int) ^ 53"
    using le53 by (intro power_increasing) simp_all
  finally have ne: "\<bar>m * 2 ^ k\<bar> \<noteq> 2 ^ 53" by simp
  have nz: "m * 2 ^ k \<noteq> 0" using False by simp
  have ov: "\<not> int (bit_length \<bar>m * 2 ^ k\<bar>) + t > 1024"
    using bl kt hi by simp
  have "round64 m e = pack64 (m * 2 ^ k) t"
    using te by (simp add: round64_def Let_def t_def k_def)
  also have "\<dots> = Finite (m * 2 ^ k) t"
    using ne nz ov by (simp add: pack64_def Let_def)
  finally have "round64 m e = Finite (m * 2 ^ k) t" .
  moreover have "float_eq (Finite (m * 2 ^ k) t) (Finite m e)"
    using te by (simp add: min_def k_def)
  ultimately show ?thesis by simp
qed

text \<open>Sample computations.\<close>

lemma float_1e16: "float_of_int (10 ^ 16) = Finite 5000000000000000 1"
proof -
  have b0: "bit_length 10000000000000000 = 54"
    using bit_length_eq[of 53 10000000000000000] by simp
  have b1: "bit_length 5000000000000000 = 53"
    using bit_length_eq[of 52 5000000000000000] by simp
  show ?thesis
    by (simp add: round64_def pack64_def Let_def float_of_int_def bit_length_0 b0 b1)
qed

lemma float_1: "float_of_int (1) = Finite 4503599627370496 (- 52)"
proof -
  have b0: "bit_length 1 = 1"
    using bit_length_eq[of 0 1] by simp
  have b1: "bit_length 4503599627370496 = 53"
    using bit_length_eq[of 52 4503599627370496] by simp
  show ?thesis
    by (simp add: round64_def pack64_def Let_def float_of_int_def bit_length_0 b0 b1)
qed

lemma float_10: "float_of_int (10) = Finite 5629499534213120 (- 49)"
proof -
  have b0: "bit_length 10 = 4"
    using bit_length_eq[of 3 10] by simp
  have b1: "bit_length 5629499534213120 = 53"
    using bit_length_eq[of 52 5629499534213120] by simp
  show ?thesis
    by (simp add: round64_def pack64_def Let_def float_of_int_def bit_length_0 b0 b1)
qed

lemma float_m3: "float_of_int (- 3) = Finite (- 6755399441055744) (- 51)"
proof -
  have b0: "bit_length 3 = 2"
    using bit_length_eq[of 1 3] by simp
  have b1: "bit_length 6755399441055744 = 53"
    using bit_length_eq[of 52 6755399441055744] by simp
  show ?thesis
    by (simp add: round64_def pack64_def Let_def float_of_int_def bit_length_0 b0 b1)
qed

lemma float_3: "float_of_int (3) = Finite 6755399441055744 (- 51)"
proof -
  have b0: "bit_length 3 = 2"
    using bit_length_eq[of 1 3] by simp
  have b1: "bit_length 6755399441055744 = 53"
    using bit_length_eq[of 52 6755399441055744] by simp
  show ?thesis
    by (simp add: round64_def pack64_def Let_def float_of_int_def bit_length_0 b0 b1)
qed

lemma float_m2: "float_of_int (- 2) = Finite (- 4503599627370496) (- 51)"
proof -
  have b0: "bit_length 2 = 2"
    using bit_length_eq[of 1 2] by simp
  have b1: "bit_length 4503599627370496 = 53"
    using bit_length_eq[of 52 4503599627370496] by simp
  show ?thesis
    by (simp add: round64_def pack64_def Let_def float_of_int_def bit_length_0 b0 b1)
qed

lemma float_m6: "float_of_int (- 6) = Finite (- 6755399441055744) (- 50)"
proof -
  have b0: "bit_length 6 = 3"
    using bit_length_eq[of 2 6] by simp
  have b1: "bit_length 6755399441055744 = 53"
    using bit_length_eq[of 52 6755399441055744] by simp
  show ?thesis
    by (simp add: round64_def pack64_def Let_def float_of_int_def bit_length_0 b0 b1)
qed

lemma float_0: "float_of_int (0) = Finite 0 0"
proof -
  show ?thesis
    by (simp add: round64_def pack64_def Let_def float_of_int_def bit_length_0 )
qed

lemma add_1e16_1: "float_add (float_of_int (10 ^ 16)) (float_of_int (1)) = Finite 5000000000000000 1"
proof -
  have b0: "bit_length 45035996273704964503599627370496 = 106"
    using bit_length_eq[of 105 45035996273704964503599627370496] by simp
  have b1: "bit_length 5000000000000000 = 53"
    using bit_length_eq[of 52 5000000000000000] by simp
  show ?thesis
    by (simp add: float_1e16[simplified] float_1) (simp add: round64_def pack64_def Let_def float_of_int_def bit_length_0 b0 b1)
qed

lemma mul_1e308_10: "float_mul (Finite 5010420900022432 971) (float_of_int (10)) = PosInf"
proof -
  have b0: "bit_length 28206162122887962435759468707840 = 105"
    using bit_length_eq[of 104 28206162122887962435759468707840] by simp
  have b1: "bit_length 6263026125028040 = 53"
    using bit_length_eq[of 52 6263026125028040] by simp
  show ?thesis
    by (simp add: float_10) (simp add: round64_def pack64_def Let_def float_of_int_def bit_length_0 b0 b1)
qed

lemma add_m3_3: "float_add (float_of_int (- 3)) (float_of_int (3)) = Finite 0 0"
proof -
  show ?thesis
    by (simp add: float_m3 float_3) (simp add: round64_def pack64_def Let_def float_of_int_def bit_length_0 )
qed

lemma mul_m2_3: "float_mul (float_of_int (- 2)) (float_of_int (3)) = Finite (- 6755399441055744) (- 50)"
proof -
  have b0: "bit_length 30423614405477505635920876929024 = 105"
    using bit_length_eq[of 104 30423614405477505635920876929024] by simp
  have b1: "bit_length 6755399441055744 = 53"
    using bit_length_eq[of 52 6755399441055744] by simp
  show ?thesis
    by (simp add: float_m2 float_3) (simp add: round64_def pack64_def Let_def float_of_int_def bit_length_0 b0 b1)
qed

lemma mul_m2_0: "float_mul (float_of_int (- 2)) (float_of_int (0)) = Finite 0 0"
proof -
  show ?thesis
    by (simp add: float_m2 float_0) (simp add: round64_def pack64_def Let_def float_of_int_def bit_length_0 )
qed

section \<open>Basic facts about sequencing\<close>

lemma pbind_assoc: "pbind (pbind m g) f = pbind m (\<lambda>x. pbind (g x) f)"
proof
  fix s
  obtain r s1 e1 where ms: "m s = (r, s1, e1)" by (cases "m s") auto
  show "pbind (pbind m g) f s = pbind m (\<lambda>x. pbind (g x) f) s"
  proof (cases r)
    case (Inl e)
    with ms show ?thesis by (simp add: pbind_def)
  next
    case (Inr v)
    obtain r2 s2 e2 where gs: "g v s1 = (r2, s2, e2)" by (cases "g v s1") auto
    show ?thesis
    proof (cases r2)
      case (Inl e)
      with ms gs Inr show ?thesis by (simp add: pbind_def)
    next
      case (Inr w)
      obtain r3 s3 e3 where fs: "f w s2 = (r3, s3, e3)" by (cases "f w s2") auto
      with ms gs Inr \<open>r = Inr v\<close> show ?thesis by (simp add: pbind_def)
    qed
  qed
qed

lemma preturn_pbind: "pbind (preturn v) f = f v"
proof
  fix s
  show "pbind (preturn v) f s = f v s"
    by (cases "f v s") (simp add: pbind_def preturn_def)
qed

text \<open>What a program headed by one primitive does.\<close>

lemma run_call:
  "pbind (call L n a k) f s =
     (case ext_call L n a k of
        Inl e \<Rightarrow> (Inl e, ext_write L n a k s, [Call n a k])
      | Inr v \<Rightarrow> (case f v (ext_write L n a k s) of
                   (r, s', evs) \<Rightarrow> (r, s', Call n a k # evs)))"
  by (simp add: pbind_def call_def split: sum.splits)

lemma run_getenv:
  "pbind (getenv n) f s =
     (case f (os_getenv (environ s) n) s of (r, s', evs) \<Rightarrow> (r, s', Getenv n # evs))"
  by (simp add: pbind_def getenv_def)

lemma run_print:
  "pbind (print v) f s = (case f () s of (r, s', evs) \<Rightarrow> (r, s', Print v # evs))"
  by (simp add: pbind_def print_def)

lemma run_set_settings:
  "pbind (set_settings attr v) f s =
     (case f () (s\<lparr>settings := (settings s)(attr \<mapsto> v)\<rparr>) of
        (r, s', evs) \<Rightarrow> (r, s', SetSettings attr v # evs))"
  by (simp add: pbind_def set_settings_def)

lemmas run_simps = run_call run_getenv run_print run_set_settings

lemma outcome_call:
  "outcome (pbind (call L n a k) f) s =
     (case ext_call L n a k of
        Inl e \<Rightarrow> Inl e
      | Inr v \<Rightarrow> outcome (f v) (ext_write L n a k s))"
  by (simp add: outcome_def run_call case_prod_beta split: sum.splits)

lemma events_call:
  "events_of (pbind (call L n a k) f) s =
     Call n a k # (case ext_call L n a k of
                     Inl e \<Rightarrow> []
                   | Inr v \<Rightarrow> events_of (f v) (ext_write L n a k s))"
  by (simp add: events_of_def run_call case_prod_beta split: sum.splits)


lemma outcome_getenv:
  "outcome (pbind (getenv n) f) s = outcome (f (os_getenv (environ s) n)) s"
  by (simp add: outcome_def run_getenv case_prod_beta)

lemma events_getenv:
  "events_of (pbind (getenv n) f) s = Getenv n # events_of (f (os_getenv (environ s) n)) s"
  by (simp add: events_of_def run_getenv case_prod_beta)


lemma outcome_print: "outcome (pbind (print v) f) s = outcome (f ()) s"
  by (simp add: outcome_def run_print case_prod_beta)

lemma events_print: "events_of (pbind (print v) f) s = Print v # events_of (f ()) s"
  by (simp add: events_of_def run_print case_prod_beta)


lemma outcome_set_settings:
  "outcome (pbind (set_settings attr v) f) s =
     outcome (f ()) (s\<lparr>settings := (settings s)(attr \<mapsto> v)\<rparr>)"
  by (simp add: outcome_def run_set_settings case_prod_beta)

lemma events_set_settings:
  "events_of (pbind (set_settings attr v) f) s =
     SetSettings attr v # events_of (f ()) (s\<lparr>settings := (settings s)(attr \<mapsto> v)\<rparr>)"
  by (simp add: events_of_def run_set_settings case_prod_beta)


lemma outcome_preturn: "outcome (preturn v) s = Inr v"
  by (simp add: outcome_def preturn_def)

lemma events_preturn: "events_of (preturn v) s = []"
  by (simp add: events_of_def preturn_def)



lemmas head_simps = outcome_call events_call outcome_getenv events_getenv outcome_print
  events_print outcome_set_settings events_set_settings outcome_preturn events_preturn

subsection \<open>Exceptions propagate\<close>

lemma stopped_at_raise_Cons:
  "stopped_at_raise L e evs \<Longrightarrow> call_returned L ev \<Longrightarrow> stopped_at_raise L e (ev # evs)"
  by (simp add: stopped_at_raise_def)

lemma run_propagates_step:
  assumes "run_propagates L g t" and "outcome m s = outcome g t"
    and "events_of m s = ev # events_of g t" and "call_returned L ev"
  shows "run_propagates L m s"
proof (cases "outcome g t")
  case (Inl e)
  with assms(1) have "stopped_at_raise L e (events_of g t)"
    by (simp add: run_propagates_def)
  then have "stopped_at_raise L e (ev # events_of g t)"
    using assms(4) by (rule stopped_at_raise_Cons)
  with Inl assms(2,3) show ?thesis by (simp add: run_propagates_def)
next
  case (Inr v)
  with assms(1) have "list_all (call_returned L) (events_of g t)"
    by (simp add: run_propagates_def)
  with Inr assms(2,3,4) show ?thesis by (simp add: run_propagates_def)
qed

lemma propagates_preturn: "propagates L (preturn v)"
  by (simp add: propagates_def run_propagates_def head_simps)

lemma propagates_call:
  assumes "\<And>v. ext_call L n a k = Inr v \<Longrightarrow> propagates L (f v)"
  shows "propagates L (pbind (call L n a k) f)"
proof (cases "ext_call L n a k")
  case (Inl e)
  then show ?thesis
    by (simp add: propagates_def run_propagates_def head_simps stopped_at_raise_def)
next
  case (Inr v)
  show ?thesis
    unfolding propagates_def
  proof
    fix s
    from assms[OF Inr] have "run_propagates L (f v) (ext_write L n a k s)"
      by (simp add: propagates_def)
    then show "run_propagates L (pbind (call L n a k) f) s"
      by (rule run_propagates_step[where ev = "Call n a k"]) (simp_all add: head_simps Inr)
  qed
qed

lemma propagates_getenv:
  assumes "\<And>v. propagates L (f v)"
  shows "propagates L (pbind (getenv n) f)"
  unfolding propagates_def
proof
  fix s
  from assms have "run_propagates L (f (os_getenv (environ s) n)) s"
    by (simp add: propagates_def)
  then show "run_propagates L (pbind (getenv n) f) s"
    by (rule run_propagates_step[where ev = "Getenv n"]) (simp_all add: head_simps)
qed

lemma propagates_print:
  assumes "propagates L (f ())"
  shows "propagates L (pbind (print v) f)"
  unfolding propagates_def
proof
  fix s
  from assms have "run_propagates L (f ()) s" by (simp add: propagates_def)
  then show "run_propagates L (pbind (print v) f) s"
    by (rule run_propagates_step[where ev = "Print v"]) (simp_all add: head_simps)
qed

lemma propagates_set_settings:
  assumes "propagates L (f ())"
  shows "propagates L (pbind (set_settings attr v) f)"
  unfolding propagates_def
proof
  fix s
  from assms have "run_propagates L (f ()) (s\<lparr>settings := (settings s)(attr \<mapsto> v)\<rparr>)"
    by (simp add: propagates_def)
  then show "run_propagates L (pbind (set_settings attr v) f) s"
    by (rule run_propagates_step[where ev = "SetSettings attr v"])
       (simp_all add: head_simps)
qed

lemmas propagates_intros = propagates_preturn propagates_call propagates_getenv
  propagates_print propagates_set_settings

subsection \<open>The order of events\<close>

lemma run_names_within_step:
  assumes "run_names_within g ns t" and "outcome m s = outcome g t"
    and "events_of m s = ev # events_of g t"
  shows "run_names_within m (event_name ev # ns) s"
  using assms by (cases "outcome g t") (simp_all add: run_names_within_def)

lemma names_within_preturn: "names_within (preturn v) []"
  by (simp add: names_within_def run_names_within_def head_simps)

lemma names_within_call:
  assumes "\<And>v. names_within (f v) ns"
  shows "names_within (pbind (call L n a k) f) (n # ns)"
  unfolding names_within_def
proof
  fix s
  show "run_names_within (pbind (call L n a k) f) (n # ns) s"
  proof (cases "ext_call L n a k")
    case (Inl e)
    then show ?thesis by (simp add: run_names_within_def head_simps)
  next
    case (Inr v)
    from assms have "run_names_within (f v) ns (ext_write L n a k s)"
      by (simp add: names_within_def)
    then have "run_names_within (pbind (call L n a k) f) (event_name (Call n a k) # ns) s"
      by (rule run_names_within_step) (simp_all add: head_simps Inr)
    then show ?thesis by simp
  qed
qed

lemma names_within_getenv:
  assumes "\<And>v. names_within (f v) ns"
  shows "names_within (pbind (getenv n) f) (''os.getenv'' # ns)"
  unfolding names_within_def
proof
  fix s
  from assms have "run_names_within (f (os_getenv (environ s) n)) ns s"
    by (simp add: names_within_def)
  then have "run_names_within (pbind (getenv n) f) (event_name (Getenv n) # ns) s"
    by (rule run_names_within_step) (simp_all add: head_simps)
  then show "run_names_within (pbind (getenv n) f) (''os.getenv'' # ns) s" by simp
qed

lemma names_within_print:
  assumes "names_within (f ()) ns"
  shows "names_within (pbind (print v) f) (''print'' # ns)"
  unfolding names_within_def
proof
  fix s
  from assms have "run_names_within (f ()) ns s" by (simp add: names_within_def)
  then have "run_names_within (pbind (print v) f) (event_name (Print v) # ns) s"
    by (rule run_names_within_step) (simp_all add: head_simps)
  then show "run_names_within (pbind (print v) f) (''print'' # ns) s" by simp
qed

lemma names_within_set_settings:
  assumes "names_within (f ()) ns"
  shows "names_within (pbind (set_settings attr v) f) ((''Settings.'' @ attr) # ns)"
  unfolding names_within_def
proof
  fix s
  from assms
  have "run_names_within (f ()) ns (s\<lparr>settings := (settings s)(attr \<mapsto> v)\<rparr>)"
    by (simp add: names_within_def)
  then have "run_names_within (pbind (set_settings attr v) f)
      (event_name (SetSettings attr v) # ns) s"
    by (rule run_names_within_step) (simp_all add: head_simps)
  then show "run_names_within (pbind (set_settings attr v) f) ((''Settings.'' @ attr) # ns) s"
    by simp
qed

lemma names_within_set_llm:
  assumes "names_within (f ()) ns"
  shows "names_within (pbind (set_settings ''llm'' v) f) (''Settings.llm'' # ns)"
  using names_within_set_settings[where f = f and ns = ns and attr = "''llm''" and v = v] assms
  by simp

lemma names_within_set_embed_model:
  assumes "names_within (f ()) ns"
  shows "names_within (pbind (set_settings ''embed_model'' v) f)
    (''Settings.embed_model'' # ns)"
  using names_within_set_settings[where f = f and ns = ns and attr = "''embed_model''"
      and v = v] assms
  by simp

lemmas names_within_intros = names_within_preturn names_within_call names_within_getenv
  names_within_print names_within_set_llm names_within_set_embed_model

subsection \<open>A property of every event\<close>

lemma all_events_preturn: "all_events P (preturn v)"
  by (simp add: all_events_def head_simps)

lemma all_events_call:
  assumes "P (Call n a k)" and "\<And>v. ext_call L n a k = Inr v \<Longrightarrow> all_events P (f v)"
  shows "all_events P (pbind (call L n a k) f)"
  using assms by (auto simp add: all_events_def head_simps split: sum.splits)

lemma all_events_getenv:
  assumes "P (Getenv n)" and "\<And>v. all_events P (f v)"
  shows "all_events P (pbind (getenv n) f)"
  using assms by (simp add: all_events_def head_simps)

lemma all_events_print:
  assumes "P (Print v)" and "all_events P (f ())"
  shows "all_events P (pbind (print v) f)"
  using assms by (simp add: all_events_def head_simps)

lemma all_events_set_settings:
  assumes "P (SetSettings attr v)" and "all_events P (f ())"
  shows "all_events P (pbind (set_settings attr v) f)"
  using assms by (simp add: all_events_def head_simps)

lemmas all_events_intros = all_events_preturn all_events_call all_events_getenv
  all_events_print all_events_set_settings

subsection \<open>The state a run leaves\<close>








subsection \<open>The execution-flow cell as one chain of primitives\<close>

lemmas notebook_defs = load_documents_def initialize_elasticsearch_def
  create_index_def get_budget_tool_def get_react_agent_def

lemma main_propagates: "propagates L (main L)"
  unfolding main_def notebook_defs pbind_assoc preturn_pbind
  by (intro propagates_intros)

lemma main_names_within: "names_within (main L) main_event_names"
  unfolding main_def notebook_defs pbind_assoc preturn_pbind main_event_names_def
  by (intro names_within_intros)


subsection \<open>Runs that return\<close>

lemma returns_call:
  assumes "pbind (call L n a k) f s = (Inr r, s', evs)"
  obtains v evs' where "ext_call L n a k = Inr v"
    and "f v (ext_write L n a k s) = (Inr r, s', evs')" and "evs = Call n a k # evs'"
proof (cases "ext_call L n a k")
  case (Inl e)
  with assms show thesis by (simp add: run_call)
next
  case (Inr v)
  obtain r2 s2 e2 where fs: "f v (ext_write L n a k s) = (r2, s2, e2)"
    by (cases "f v (ext_write L n a k s)") auto
  with assms Inr have "r2 = Inr r" "s2 = s'" "evs = Call n a k # e2"
    by (simp_all add: run_call)
  with fs have "f v (ext_write L n a k s) = (Inr r, s', e2)" "evs = Call n a k # e2"
    by simp_all
  with Inr show thesis by (rule that)
qed

lemma returns_getenv:
  assumes "pbind (getenv n) f s = (Inr r, s', evs)"
  obtains evs' where "f (os_getenv (environ s) n) s = (Inr r, s', evs')"
    and "evs = Getenv n # evs'"
proof -
  obtain r2 s2 e2 where fs: "f (os_getenv (environ s) n) s = (r2, s2, e2)"
    by (cases "f (os_getenv (environ s) n) s") auto
  with assms have "r2 = Inr r" "s2 = s'" "evs = Getenv n # e2"
    by (simp_all add: run_getenv)
  with fs have "f (os_getenv (environ s) n) s = (Inr r, s', e2)" "evs = Getenv n # e2"
    by simp_all
  then show thesis by (rule that)
qed

lemma returns_print:
  assumes "pbind (print v) f s = (Inr r, s', evs)"
  obtains evs' where "f () s = (Inr r, s', evs')" and "evs = Print v # evs'"
proof -
  obtain r2 s2 e2 where fs: "f () s = (r2, s2, e2)" by (cases "f () s") auto
  with assms have "r2 = Inr r" "s2 = s'" "evs = Print v # e2"
    by (simp_all add: run_print)
  with fs have "f () s = (Inr r, s', e2)" "evs = Print v # e2" by simp_all
  then show thesis by (rule that)
qed

lemma returns_set_settings:
  assumes "pbind (set_settings attr v) f s = (Inr r, s', evs)"
  obtains evs' where "f () (s\<lparr>settings := (settings s)(attr \<mapsto> v)\<rparr>) = (Inr r, s', evs')"
    and "evs = SetSettings attr v # evs'"
proof -
  obtain r2 s2 e2 where fs: "f () (s\<lparr>settings := (settings s)(attr \<mapsto> v)\<rparr>) = (r2, s2, e2)"
    by (cases "f () (s\<lparr>settings := (settings s)(attr \<mapsto> v)\<rparr>)") auto
  with assms have "r2 = Inr r" "s2 = s'" "evs = SetSettings attr v # e2"
    by (simp_all add: run_set_settings)
  with fs have "f () (s\<lparr>settings := (settings s)(attr \<mapsto> v)\<rparr>) = (Inr r, s', e2)"
    "evs = SetSettings attr v # e2" by simp_all
  then show thesis by (rule that)
qed

lemma returns_preturn:
  assumes "preturn v s = (Inr r, s', evs)"
  obtains "r = v" and "s' = s" and "evs = []"
proof -
  from assms have "r = v" "s' = s" "evs = []" by (auto simp add: preturn_def)
  then show thesis by (rule that)
qed

lemmas returns_elims = returns_call returns_getenv returns_print returns_set_settings
  returns_preturn

text \<open>The events of a returning run of the cell, with the values that flow between them.\<close>

lemma main_success:
  assumes "main L s = (Inr response, s', evs)"
  shows "\<exists>w llm reader documents host username password index_name vector_store client
      model_name embedding storage_context index multiply_tool add_tool query_engine
      budget_tool agent.
    ext_call L ''load_dotenv'' [] [] = Inr w
  \<and> ext_call L ''Bedrock'' []
       [(''model'',
         os_getenv (environ (ext_write L ''load_dotenv'' [] [] s)) ''AWS_BEDROCK_LLM_MODEL''),
        (''temperature'', VInt 0), (''max_tokens'', VInt 1000)] = Inr llm
  \<and> ext_call L ''SimpleDirectoryReader'' [VStr ''./data'']
       [(''required_exts'', VList [VStr ''.pdf''])] = Inr reader
  \<and> ext_call L ''load_data'' [reader] [] = Inr documents
  \<and> ext_call L ''ElasticsearchStore'' []
       [(''index_name'', index_name), (''es_url'', host), (''es_user'', username),
        (''es_password'', password)] = Inr vector_store
  \<and> ext_call L ''boto3.client'' [] [(''service_name'', VStr ''bedrock-runtime'')] = Inr client
  \<and> ext_call L ''BedrockEmbedding'' [] [(''model_name'', model_name), (''client'', client)]
       = Inr embedding
  \<and> ext_call L ''StorageContext.from_defaults'' [] [(''vector_store'', vector_store)]
       = Inr storage_context
  \<and> ext_call L ''VectorStoreIndex.from_documents'' [documents]
       [(''storage_context'', storage_context), (''show_progress'', VBool True)] = Inr index
  \<and> ext_call L ''FunctionTool.from_defaults'' [] [(''fn'', VFn FnMultiply)] = Inr multiply_tool
  \<and> ext_call L ''FunctionTool.from_defaults'' [] [(''fn'', VFn FnAdd)] = Inr add_tool
  \<and> ext_call L ''as_query_engine'' [index] [] = Inr query_engine
  \<and> ext_call L ''QueryEngineTool.from_defaults'' [query_engine]
       [(''name'', VStr budget_tool_name), (''description'', VStr budget_tool_description)]
       = Inr budget_tool
  \<and> ext_call L ''ReActAgent.from_tools'' [VList [multiply_tool, add_tool, budget_tool]]
       [(''verbose'', VBool True)] = Inr agent
  \<and> ext_call L ''chat'' [agent, VStr chat_question] [] = Inr response
  \<and> evs =
      [Call ''load_dotenv'' [] [],
       Getenv ''AWS_BEDROCK_LLM_MODEL'',
       Call ''Bedrock'' []
         [(''model'',
           os_getenv (environ (ext_write L ''load_dotenv'' [] [] s)) ''AWS_BEDROCK_LLM_MODEL''),
          (''temperature'', VInt 0), (''max_tokens'', VInt 1000)],
       SetSettings ''llm'' llm,
       Print (VStr ''Loading documents...''),
       Call ''SimpleDirectoryReader'' [VStr ''./data'']
         [(''required_exts'', VList [VStr ''.pdf''])],
       Call ''load_data'' [reader] [],
       Print documents,
       Print (VStr ''Initializing OpenSearch...''),
       Getenv ''ELASTIC_HOST'', Getenv ''ELASTIC_USERNAME'', Getenv ''ELASTIC_PASSWORD'',
       Getenv ''INDEX_NAME'',
       Call ''ElasticsearchStore'' []
         [(''index_name'', index_name), (''es_url'', host), (''es_user'', username),
          (''es_password'', password)],
       Print vector_store,
       Print (VStr ''Creating index and storing embeddings...''),
       Call ''boto3.client'' [] [(''service_name'', VStr ''bedrock-runtime'')],
       Getenv ''AWS_BEDROCK_EMBEDDING_MODEL'',
       Call ''BedrockEmbedding'' [] [(''model_name'', model_name), (''client'', client)],
       SetSettings ''embed_model'' embedding,
       Call ''StorageContext.from_defaults'' [] [(''vector_store'', vector_store)],
       Call ''VectorStoreIndex.from_documents'' [documents]
         [(''storage_context'', storage_context), (''show_progress'', VBool True)],
       Print (VStr ''Get Basic Maths Functions and Query Engine Tools...''),
       Call ''FunctionTool.from_defaults'' [] [(''fn'', VFn FnMultiply)],
       Call ''FunctionTool.from_defaults'' [] [(''fn'', VFn FnAdd)],
       Call ''as_query_engine'' [index] [],
       Call ''QueryEngineTool.from_defaults'' [query_engine]
         [(''name'', VStr budget_tool_name), (''description'', VStr budget_tool_description)],
       Print budget_tool,
       Print (VStr ''Initialize and Get ReAct Agent for Chat...''),
       Call ''ReActAgent.from_tools'' [VList [multiply_tool, add_tool, budget_tool]]
         [(''verbose'', VBool True)],
       Call ''chat'' [agent, VStr chat_question] []]"
  using assms
  unfolding main_def notebook_defs pbind_assoc preturn_pbind
  apply (elim returns_elims)
  apply hypsubst_thin
  apply simp
  done

subsection \<open>Sample runs\<close>

lemma demo_call_simps:
  "demo_call ''load_dotenv'' a k = Inr (VBool True)"
  "demo_call ''Bedrock'' a k = Inr (VObj 1)"
  "demo_call ''SimpleDirectoryReader'' a k = Inr (VObj 2)"
  "demo_call ''load_data'' a k = Inr (VObj 3)"
  "demo_call ''ElasticsearchStore'' a k = Inr (VObj 4)"
  "demo_call ''boto3.client'' a k = Inr (VObj 5)"
  "demo_call ''BedrockEmbedding'' a k = Inr (VObj 6)"
  "demo_call ''StorageContext.from_defaults'' a k = Inr (VObj 7)"
  "demo_call ''VectorStoreIndex.from_documents'' a k = Inr (VObj 8)"
  "demo_call ''FunctionTool.from_defaults'' a [(''fn'', VFn FnMultiply)] = Inr (VObj 9)"
  "demo_call ''FunctionTool.from_defaults'' a [(''fn'', VFn FnAdd)] = Inr (VObj 10)"
  "demo_call ''as_query_engine'' a k = Inr (VObj 11)"
  "demo_call ''QueryEngineTool.from_defaults'' a k = Inr (VObj 12)"
  "demo_call ''ReActAgent.from_tools'' a k = Inr (VObj 13)"
  "demo_call ''chat'' a k = Inr (VObj 14)"
  by (simp_all add: demo_call_def demo_handles_def)

lemma demo_ext: "ext_call demo_lib = demo_call"
  by (simp add: demo_lib_def)

lemma demo_wr: "ext_write demo_lib = demo_write"
  by (simp add: demo_lib_def)

lemma unreachable_wr: "ext_write unreachable_lib = demo_write"
  by (simp add: unreachable_lib_def)

lemma unreachable_ext:
  "ext_call unreachable_lib ''ElasticsearchStore'' a k = Inl (LibraryError ''ConnectionError'')"
  "n \<noteq> ''ElasticsearchStore'' \<Longrightarrow> ext_call unreachable_lib n a k = demo_call n a k"
  by (simp_all add: unreachable_lib_def)

lemma demo_write_simps:
  "demo_write ''load_dotenv'' a k s = s\<lparr>environ := map_of demo_dotenv_file ++ environ s\<rparr>"
  "demo_write ''VectorStoreIndex.from_documents'' a k s =
     s\<lparr>settings := (settings s)(''callback_manager'' \<mapsto> VObj 15)\<rparr>"
  "demo_write ''Bedrock'' a k s = s"
  "demo_write ''SimpleDirectoryReader'' a k s = s"
  "demo_write ''load_data'' a k s = s"
  "demo_write ''ElasticsearchStore'' a k s = s"
  "demo_write ''boto3.client'' a k s = s"
  "demo_write ''BedrockEmbedding'' a k s = s"
  "demo_write ''StorageContext.from_defaults'' a k s = s"
  "demo_write ''FunctionTool.from_defaults'' a k s = s"
  "demo_write ''as_query_engine'' a k s = s"
  "demo_write ''QueryEngineTool.from_defaults'' a k s = s"
  "demo_write ''ReActAgent.from_tools'' a k s = s"
  "demo_write ''chat'' a k s = s"
  by (simp_all add: demo_write_def)

lemma loaded_environ:
  "os_getenv (map_of demo_dotenv_file ++ environ demo_state) ''ELASTIC_HOST''
     = VStr ''http://elastic:9200''"
  "os_getenv (map_of demo_dotenv_file ++ environ demo_state) ''ELASTIC_USERNAME''
     = VStr ''elastic''"
  "os_getenv (map_of demo_dotenv_file ++ environ demo_state) ''ELASTIC_PASSWORD''
     = VStr ''changeme''"
  "os_getenv (map_of demo_dotenv_file ++ environ demo_state) ''INDEX_NAME''
     = VStr ''budget_2023''"
  "os_getenv (map_of demo_dotenv_file ++ environ demo_state) ''AWS_BEDROCK_EMBEDDING_MODEL''
     = VStr ''amazon.titan-embed-text-v1''"
  "os_getenv (map_of demo_dotenv_file ++ environ demo_state) ''AWS_BEDROCK_LLM_MODEL''
     = VStr ''amazon.titan-text-express-v1''"
  by (simp_all add: os_getenv_def demo_dotenv_file_def demo_state_def map_add_def)

lemma main_demo_run:
  "main demo_lib demo_state =
     (Inr (VObj 14),
      demo_state\<lparr>environ := map_of demo_dotenv_file ++ environ demo_state,
                 settings := (settings demo_state)
                   (''llm'' \<mapsto> VObj 1, ''embed_model'' \<mapsto> VObj 6,
                    ''callback_manager'' \<mapsto> VObj 15)\<rparr>,
      demo_events)"
  unfolding main_def notebook_defs pbind_assoc preturn_pbind demo_events_def
  by (simp add: run_simps demo_ext demo_wr demo_call_simps demo_write_simps loaded_environ
      preturn_def)


lemma main_unreachable_run:
  "main unreachable_lib demo_state =
     (Inl (LibraryError ''ConnectionError''),
      demo_state\<lparr>environ := map_of demo_dotenv_file ++ environ demo_state,
                 settings := (settings demo_state)(''llm'' \<mapsto> VObj 1)\<rparr>,
      unreachable_events)"
  unfolding main_def notebook_defs pbind_assoc preturn_pbind demo_events_def
    unreachable_events_def
  by (simp add: run_simps unreachable_ext unreachable_wr demo_call_simps demo_write_simps
      loaded_environ preturn_def)

subsection \<open>Facts about the observations\<close>

lemma calls_named_satisfy:
  "list_all (call_args_satisfy n Q) evs \<Longrightarrow> list_all (\<lambda>(a, k). Q a k) (calls_named n evs)"
  by (induction n evs rule: calls_named.induct) simp_all

lemma env_reads_config:
  "list_all reads_config_var evs \<Longrightarrow> set (env_reads evs) \<subseteq> set config_vars"
  by (induction evs rule: env_reads.induct) simp_all



lemma main_reads_config: "all_events reads_config_var (main L)"
  unfolding main_def notebook_defs pbind_assoc preturn_pbind
  by (intro all_events_intros) (simp_all add: config_vars_def)

lemma main_reader_on_data:
  "all_events (call_args_satisfy ''SimpleDirectoryReader'' reader_on_data) (main L)"
  unfolding main_def notebook_defs pbind_assoc preturn_pbind
  by (intro all_events_intros) (simp_all add: reader_on_data_def)

lemma main_three_tools:
  "all_events (call_args_satisfy ''ReActAgent.from_tools'' (three_tools L)) (main L)"
  unfolding main_def notebook_defs pbind_assoc preturn_pbind
  by (intro all_events_intros) (auto simp add: three_tools_def)


lemma main_returns_triple:
  assumes "outcome (main L) s = Inr response"
  shows "main L s = (Inr response, state_after (main L) s, events_of (main L) s)"
  using assms by (cases "main L s") (simp add: outcome_def state_after_def events_of_def)

lemma demo_outcome: "outcome (main demo_lib) demo_state = Inr (VObj 14)"
  by (simp add: outcome_def main_demo_run)


lemma demo_events_of: "events_of (main demo_lib) demo_state = demo_events"
  by (simp add: events_of_def main_demo_run)

lemma unreachable_outcome:
  "outcome (main unreachable_lib) demo_state = Inl (LibraryError ''ConnectionError'')"
  by (simp add: outcome_def main_unreachable_run)

lemma unreachable_events_of: "events_of (main unreachable_lib) demo_state = unreachable_events"
  by (simp add: events_of_def main_unreachable_run)

section \<open>The execution flow\<close>

text \<open>
  Claim C2 says that the cell ends by printing the response, and that its steps are
  exactly: load the environment, load documents, connect to the store, index, build the
  tools, build the agent, one chat query, print. In the sample run the cell binds the
  reply of \<^verbatim>\<open>agent.chat\<close>, that call is its last event, the reply is printed nowhere,
  and the first library object built is the Bedrock LLM.
\<close>

theorem main_never_prints_response:
  "outcome (main demo_lib) demo_state = Inr (VObj 14)
   \<and> last (events_of (main demo_lib) demo_state) = Call ''chat'' [VObj 13, VStr chat_question] []
   \<and> Print (VObj 14) \<notin> set (events_of (main demo_lib) demo_state)
   \<and> take 3 (map event_name (events_of (main demo_lib) demo_state))
       = [''load_dotenv'', ''os.getenv'', ''Bedrock'']
   \<and> events_of (main demo_lib) demo_state = demo_events"
  by (simp add: demo_outcome demo_events_of demo_events_def)

text \<open>
  Claim C2, amended. Whenever the execution-flow cell returns, its events are, once each
  and in this order, those named by \<open>main_event_names\<close>: \<^verbatim>\<open>load_dotenv\<close>; the Bedrock
  LLM built from \<^verbatim>\<open>AWS_BEDROCK_LLM_MODEL\<close> and, directly after, its assignment to
  \<^verbatim>\<open>Settings.llm\<close>; the document reader and its \<^verbatim>\<open>load_data\<close>; the vector store; the
  index, with the assignment of the embedding model to \<^verbatim>\<open>Settings.embed_model\<close>; the
  two function tools and the query-engine tool; the agent; and one \<^verbatim>\<open>chat\<close> call. That
  call is the last event and its reply is what the cell binds to \<^verbatim>\<open>response\<close>: the reply
  is not printed.
\<close>

theorem main_steps_in_order:
  assumes "outcome (main L) s = Inr response"
  shows "map event_name (events_of (main L) s) = main_event_names
    \<and> (\<exists>agent. last (events_of (main L) s) = Call ''chat'' [agent, VStr chat_question] []
          \<and> ext_call L ''chat'' [agent, VStr chat_question] [] = Inr response
          \<and> calls_named ''chat'' (events_of (main L) s) = [([agent, VStr chat_question], [])])
    \<and> (\<exists>llm embedding.
          take 5 (events_of (main L) s) =
            [Call ''load_dotenv'' [] [],
             Getenv ''AWS_BEDROCK_LLM_MODEL'',
             Call ''Bedrock'' []
               [(''model'',
                 os_getenv (environ (ext_write L ''load_dotenv'' [] [] s))
                   ''AWS_BEDROCK_LLM_MODEL''),
                (''temperature'', VInt 0), (''max_tokens'', VInt 1000)],
             SetSettings ''llm'' llm,
             Print (VStr ''Loading documents...'')]
          \<and> ext_call L ''Bedrock'' []
               [(''model'',
                 os_getenv (environ (ext_write L ''load_dotenv'' [] [] s))
                   ''AWS_BEDROCK_LLM_MODEL''),
                (''temperature'', VInt 0), (''max_tokens'', VInt 1000)] = Inr llm
          \<and> settings_writes (events_of (main L) s) =
               [(''llm'', llm), (''embed_model'', embedding)])"
  using main_success[OF main_returns_triple[OF assms]]
  by (elim exE conjE) (simp add: main_event_names_def)

theorem main_steps_in_order_witness:
  "outcome (main demo_lib) demo_state = Inr (VObj 14)
   \<and> map event_name (events_of (main demo_lib) demo_state) = main_event_names
   \<and> last (events_of (main demo_lib) demo_state) = Call ''chat'' [VObj 13, VStr chat_question] []
   \<and> settings_writes (events_of (main demo_lib) demo_state) =
       [(''llm'', VObj 1), (''embed_model'', VObj 6)]"
  using main_steps_in_order[of demo_lib demo_state "VObj 14"]
  by (simp add: demo_outcome demo_events_of demo_events_def)

text \<open>
  Claim C4. Every run of the execution-flow cell either returns, and then every library
  call it made returned, or ends in an exception \<open>e\<close>; then \<open>e\<close> is what the last call of
  the run raised, every call before it returned, and the events are an initial segment of
  those of a returning run. So an exception of a library call is passed on unchanged,
  nothing runs after it, no call is made again and no other path is taken.
\<close>

theorem main_exception_propagates:
  "case outcome (main L) s of
     Inl e \<Rightarrow> stopped_at_raise L e (events_of (main L) s)
            \<and> prefix (map event_name (events_of (main L) s)) main_event_names
   | Inr response \<Rightarrow> list_all (call_returned L) (events_of (main L) s)
            \<and> map event_name (events_of (main L) s) = main_event_names"
proof -
  have p: "run_propagates L (main L) s"
    using main_propagates[of L] by (simp add: propagates_def)
  have n: "run_names_within (main L) main_event_names s"
    using main_names_within[of L] by (simp add: names_within_def)
  from p n show ?thesis
    by (cases "outcome (main L) s") (simp_all add: run_propagates_def run_names_within_def)
qed

theorem main_exception_propagates_witness:
  "outcome (main unreachable_lib) demo_state = Inl (LibraryError ''ConnectionError'')
   \<and> stopped_at_raise unreachable_lib (LibraryError ''ConnectionError'')
       (events_of (main unreachable_lib) demo_state)
   \<and> last (events_of (main unreachable_lib) demo_state) =
       Call ''ElasticsearchStore'' []
         [(''index_name'', VStr ''budget_2023''),
          (''es_url'', VStr ''http://elastic:9200''),
          (''es_user'', VStr ''elastic''),
          (''es_password'', VStr ''changeme'')]
   \<and> prefix (map event_name (events_of (main unreachable_lib) demo_state)) main_event_names"
  using main_exception_propagates[of unreachable_lib demo_state]
  by (simp add: unreachable_outcome unreachable_events_of unreachable_events_def
      demo_events_def)

section \<open>Global state\<close>




section \<open>Loading documents\<close>

text \<open>
  Claim C5. For every folder path, \<^verbatim>\<open>load_documents\<close> passes that path and the
  extension filter \<^verbatim>\<open>[".pdf"]\<close> to the reader's constructor and returns what the
  reader's \<^verbatim>\<open>load_data\<close> returns, unmodified (an exception of either call included). In
  every run of the cell each reader is constructed on \<^verbatim>\<open>"./data"\<close> with that filter, and
  a returning run constructs exactly one.
\<close>

theorem load_documents_forwards:
  "load_documents L pdf_folder s =
     (case ext_call L ''SimpleDirectoryReader'' [VStr pdf_folder]
             [(''required_exts'', VList [VStr ''.pdf''])] of
        Inl e \<Rightarrow>
          (Inl e,
           ext_write L ''SimpleDirectoryReader'' [VStr pdf_folder]
             [(''required_exts'', VList [VStr ''.pdf''])] s,
           [Call ''SimpleDirectoryReader'' [VStr pdf_folder]
              [(''required_exts'', VList [VStr ''.pdf''])]])
      | Inr reader \<Rightarrow>
          (ext_call L ''load_data'' [reader] [],
           ext_write L ''load_data'' [reader] []
            (ext_write L ''SimpleDirectoryReader'' [VStr pdf_folder]
               [(''required_exts'', VList [VStr ''.pdf''])] s),
           [Call ''SimpleDirectoryReader'' [VStr pdf_folder]
              [(''required_exts'', VList [VStr ''.pdf''])],
            Call ''load_data'' [reader] []]))
   \<and> list_all (\<lambda>(a, k). reader_on_data a k)
        (calls_named ''SimpleDirectoryReader'' (events_of (main L) s))
   \<and> (\<forall>response. outcome (main L) s = Inr response \<longrightarrow>
        calls_named ''SimpleDirectoryReader'' (events_of (main L) s) =
          [([VStr ''./data''], [(''required_exts'', VList [VStr ''.pdf''])])])"
proof -
  have "load_documents L pdf_folder s =
     (case ext_call L ''SimpleDirectoryReader'' [VStr pdf_folder]
             [(''required_exts'', VList [VStr ''.pdf''])] of
        Inl e \<Rightarrow>
          (Inl e,
           ext_write L ''SimpleDirectoryReader'' [VStr pdf_folder]
             [(''required_exts'', VList [VStr ''.pdf''])] s,
           [Call ''SimpleDirectoryReader'' [VStr pdf_folder]
              [(''required_exts'', VList [VStr ''.pdf''])]])
      | Inr reader \<Rightarrow>
          (ext_call L ''load_data'' [reader] [],
           ext_write L ''load_data'' [reader] []
            (ext_write L ''SimpleDirectoryReader'' [VStr pdf_folder]
               [(''required_exts'', VList [VStr ''.pdf''])] s),
           [Call ''SimpleDirectoryReader'' [VStr pdf_folder]
              [(''required_exts'', VList [VStr ''.pdf''])],
            Call ''load_data'' [reader] []]))"
    unfolding load_documents_def pbind_assoc preturn_pbind
    by (simp add: run_simps preturn_def split: sum.splits)
  moreover have "list_all (\<lambda>(a, k). reader_on_data a k)
        (calls_named ''SimpleDirectoryReader'' (events_of (main L) s))"
    using main_reader_on_data[of L] by (simp add: all_events_def calls_named_satisfy)
  moreover have "calls_named ''SimpleDirectoryReader'' (events_of (main L) s) =
          [([VStr ''./data''], [(''required_exts'', VList [VStr ''.pdf''])])]"
    if "outcome (main L) s = Inr response" for response
    using main_success[OF main_returns_triple[OF that]]
    by (elim exE conjE) simp
  ultimately show ?thesis by blast
qed

theorem load_documents_forwards_witness:
  "outcome (main demo_lib) demo_state = Inr (VObj 14)
   \<and> calls_named ''SimpleDirectoryReader'' (events_of (main demo_lib) demo_state) =
        [([VStr ''./data''], [(''required_exts'', VList [VStr ''.pdf''])])]
   \<and> reader_on_data [VStr ''./data''] [(''required_exts'', VList [VStr ''.pdf''])]
   \<and> load_documents demo_lib ''./data'' demo_state =
        (Inr (VObj 3), demo_state,
         [Call ''SimpleDirectoryReader'' [VStr ''./data'']
            [(''required_exts'', VList [VStr ''.pdf''])],
          Call ''load_data'' [VObj 2] []])"
  using load_documents_forwards[of demo_lib "''./data''" demo_state]
  by (simp add: demo_outcome demo_ext demo_wr demo_call_simps demo_write_simps
      reader_on_data_def)

section \<open>Connecting to the vector store\<close>

text \<open>
  Claim C6. \<^verbatim>\<open>initialize_elasticsearch\<close> reads the four variables
  \<^verbatim>\<open>ELASTIC_HOST\<close>, \<^verbatim>\<open>ELASTIC_USERNAME\<close>, \<^verbatim>\<open>ELASTIC_PASSWORD\<close> and \<^verbatim>\<open>INDEX_NAME\<close>,
  makes one call of the client constructor with exactly the four keyword arguments
  \<^verbatim>\<open>index_name\<close>, \<^verbatim>\<open>es_url\<close>, \<^verbatim>\<open>es_user\<close> and \<^verbatim>\<open>es_password\<close> holding the values read,
  and returns what the constructor returns; when the four variables are set, the
  arguments are their strings, unchanged.
\<close>

theorem initialize_elasticsearch_forwards:
  "initialize_elasticsearch L s =
     (ext_call L ''ElasticsearchStore'' []
        [(''index_name'', os_getenv (environ s) ''INDEX_NAME''),
         (''es_url'', os_getenv (environ s) ''ELASTIC_HOST''),
         (''es_user'', os_getenv (environ s) ''ELASTIC_USERNAME''),
         (''es_password'', os_getenv (environ s) ''ELASTIC_PASSWORD'')],
      ext_write L ''ElasticsearchStore'' []
        [(''index_name'', os_getenv (environ s) ''INDEX_NAME''),
         (''es_url'', os_getenv (environ s) ''ELASTIC_HOST''),
         (''es_user'', os_getenv (environ s) ''ELASTIC_USERNAME''),
         (''es_password'', os_getenv (environ s) ''ELASTIC_PASSWORD'')] s,
      [Getenv ''ELASTIC_HOST'', Getenv ''ELASTIC_USERNAME'', Getenv ''ELASTIC_PASSWORD'',
       Getenv ''INDEX_NAME'',
       Call ''ElasticsearchStore'' []
         [(''index_name'', os_getenv (environ s) ''INDEX_NAME''),
          (''es_url'', os_getenv (environ s) ''ELASTIC_HOST''),
          (''es_user'', os_getenv (environ s) ''ELASTIC_USERNAME''),
          (''es_password'', os_getenv (environ s) ''ELASTIC_PASSWORD'')]])
   \<and> (environ s ''ELASTIC_HOST'' = Some host \<and> environ s ''ELASTIC_USERNAME'' = Some username
        \<and> environ s ''ELASTIC_PASSWORD'' = Some password
        \<and> environ s ''INDEX_NAME'' = Some index_name \<longrightarrow>
      outcome (initialize_elasticsearch L) s =
        ext_call L ''ElasticsearchStore'' []
          [(''index_name'', VStr index_name), (''es_url'', VStr host),
           (''es_user'', VStr username), (''es_password'', VStr password)])"
  unfolding initialize_elasticsearch_def pbind_assoc preturn_pbind outcome_def
  by (auto simp add: run_simps preturn_def os_getenv_def split: sum.splits)

theorem initialize_elasticsearch_forwards_witness:
  "environ loaded_state ''ELASTIC_HOST'' = Some ''http://elastic:9200''
   \<and> environ loaded_state ''ELASTIC_USERNAME'' = Some ''elastic''
   \<and> environ loaded_state ''ELASTIC_PASSWORD'' = Some ''changeme''
   \<and> environ loaded_state ''INDEX_NAME'' = Some ''budget_2023''
   \<and> outcome (initialize_elasticsearch demo_lib) loaded_state =
        ext_call demo_lib ''ElasticsearchStore'' []
          [(''index_name'', VStr ''budget_2023''), (''es_url'', VStr ''http://elastic:9200''),
           (''es_user'', VStr ''elastic''), (''es_password'', VStr ''changeme'')]
   \<and> outcome (initialize_elasticsearch demo_lib) loaded_state = Inr (VObj 4)"
  using initialize_elasticsearch_forwards[of demo_lib loaded_state
      "''http://elastic:9200''" "''elastic''" "''changeme''" "''budget_2023''"]
  by (simp add: loaded_state_def demo_state_def demo_dotenv_file_def map_add_def
      demo_ext demo_call_simps)

text \<open>
  Claim C10. \<^verbatim>\<open>initialize_elasticsearch\<close> validates nothing: when some of the four
  variables are unset it still calls the client constructor once, with \<^verbatim>\<open>None\<close> as the
  value of each keyword argument whose variable is unset, and its outcome is the
  constructor's, so it raises nothing of its own.
\<close>

theorem initialize_elasticsearch_no_validation:
  assumes "environ s ''ELASTIC_HOST'' = None \<or> environ s ''ELASTIC_USERNAME'' = None
    \<or> environ s ''ELASTIC_PASSWORD'' = None \<or> environ s ''INDEX_NAME'' = None"
  shows "\<exists>kwargs.
      calls_named ''ElasticsearchStore'' (events_of (initialize_elasticsearch L) s)
        = [([], kwargs)]
    \<and> outcome (initialize_elasticsearch L) s = ext_call L ''ElasticsearchStore'' [] kwargs
    \<and> map fst kwargs = [''index_name'', ''es_url'', ''es_user'', ''es_password'']
    \<and> VNone \<in> snd ` set kwargs
    \<and> (environ s ''INDEX_NAME'' = None \<longrightarrow> (''index_name'', VNone) \<in> set kwargs)
    \<and> (environ s ''ELASTIC_HOST'' = None \<longrightarrow> (''es_url'', VNone) \<in> set kwargs)
    \<and> (environ s ''ELASTIC_USERNAME'' = None \<longrightarrow> (''es_user'', VNone) \<in> set kwargs)
    \<and> (environ s ''ELASTIC_PASSWORD'' = None \<longrightarrow> (''es_password'', VNone) \<in> set kwargs)"
proof -
  let ?kw = "[(''index_name'', os_getenv (environ s) ''INDEX_NAME''),
         (''es_url'', os_getenv (environ s) ''ELASTIC_HOST''),
         (''es_user'', os_getenv (environ s) ''ELASTIC_USERNAME''),
         (''es_password'', os_getenv (environ s) ''ELASTIC_PASSWORD'')]"
  have run: "initialize_elasticsearch L s =
     (ext_call L ''ElasticsearchStore'' [] ?kw, ext_write L ''ElasticsearchStore'' [] ?kw s,
      [Getenv ''ELASTIC_HOST'', Getenv ''ELASTIC_USERNAME'', Getenv ''ELASTIC_PASSWORD'',
       Getenv ''INDEX_NAME'', Call ''ElasticsearchStore'' [] ?kw])"
    unfolding initialize_elasticsearch_def pbind_assoc preturn_pbind
    by (simp add: run_simps preturn_def split: sum.splits)
  have none: "os_getenv (environ s) n = VNone" if "environ s n = None" for n
    using that by (simp add: os_getenv_def)
  from assms have "VNone \<in> snd ` set ?kw"
    by (auto simp add: none)
  with run show ?thesis
    by (intro exI[of _ ?kw]) (simp add: outcome_def events_of_def none)
qed

theorem initialize_elasticsearch_no_validation_witness:
  "environ demo_state ''INDEX_NAME'' = None
   \<and> calls_named ''ElasticsearchStore'' (events_of (initialize_elasticsearch demo_lib) demo_state)
       = [([], [(''index_name'', VNone), (''es_url'', VStr ''http://elastic:9200''),
                (''es_user'', VStr ''elastic''), (''es_password'', VStr ''changeme'')])]
   \<and> outcome (initialize_elasticsearch demo_lib) demo_state = Inr (VObj 4)"
proof -
  have unset: "environ demo_state ''INDEX_NAME'' = None"
    by (simp add: demo_state_def)
  have run: "initialize_elasticsearch demo_lib demo_state =
     (Inr (VObj 4), demo_state,
      [Getenv ''ELASTIC_HOST'', Getenv ''ELASTIC_USERNAME'', Getenv ''ELASTIC_PASSWORD'',
       Getenv ''INDEX_NAME'',
       Call ''ElasticsearchStore'' []
         [(''index_name'', VNone), (''es_url'', VStr ''http://elastic:9200''),
          (''es_user'', VStr ''elastic''), (''es_password'', VStr ''changeme'')]])"
    unfolding initialize_elasticsearch_def pbind_assoc preturn_pbind
    by (simp add: run_simps preturn_def demo_ext demo_wr demo_call_simps demo_write_simps)
       (simp add: os_getenv_def demo_state_def)
  from initialize_elasticsearch_no_validation[of demo_state demo_lib] unset run
  show ?thesis by (simp add: outcome_def events_of_def)
qed


section \<open>Configuration\<close>

text \<open>
  Claim C7. Every environment variable that a run of the cell reads is one of the six in
  \<open>config_vars\<close>, and a returning run reads each of the six, once:
  \<^verbatim>\<open>AWS_BEDROCK_LLM_MODEL\<close> at top level, the four Elasticsearch variables in
  \<^verbatim>\<open>initialize_elasticsearch\<close>, and \<^verbatim>\<open>AWS_BEDROCK_EMBEDDING_MODEL\<close> in
  \<^verbatim>\<open>create_index\<close>.
\<close>

theorem environment_reads:
  "set (env_reads (events_of (main L) s)) \<subseteq> set config_vars
   \<and> (\<forall>response. outcome (main L) s = Inr response \<longrightarrow>
        env_reads (events_of (main L) s) =
          [''AWS_BEDROCK_LLM_MODEL'', ''ELASTIC_HOST'', ''ELASTIC_USERNAME'',
           ''ELASTIC_PASSWORD'', ''INDEX_NAME'', ''AWS_BEDROCK_EMBEDDING_MODEL'']
      \<and> set (env_reads (events_of (main L) s)) = set config_vars)
   \<and> env_reads (events_of (initialize_elasticsearch L) s) =
        [''ELASTIC_HOST'', ''ELASTIC_USERNAME'', ''ELASTIC_PASSWORD'', ''INDEX_NAME'']
   \<and> set (env_reads (events_of (create_index L documents vector_store) s))
        \<subseteq> {''AWS_BEDROCK_EMBEDDING_MODEL''}"
proof -
  have "set (env_reads (events_of (main L) s)) \<subseteq> set config_vars"
    using main_reads_config[of L] by (simp add: all_events_def env_reads_config)
  moreover have "env_reads (events_of (main L) s) =
          [''AWS_BEDROCK_LLM_MODEL'', ''ELASTIC_HOST'', ''ELASTIC_USERNAME'',
           ''ELASTIC_PASSWORD'', ''INDEX_NAME'', ''AWS_BEDROCK_EMBEDDING_MODEL'']
      \<and> set (env_reads (events_of (main L) s)) = set config_vars"
    if "outcome (main L) s = Inr response" for response
    using main_success[OF main_returns_triple[OF that]]
    by (elim exE conjE) (auto simp add: config_vars_def)
  moreover have "env_reads (events_of (initialize_elasticsearch L) s) =
        [''ELASTIC_HOST'', ''ELASTIC_USERNAME'', ''ELASTIC_PASSWORD'', ''INDEX_NAME'']"
    unfolding initialize_elasticsearch_def pbind_assoc preturn_pbind
    by (simp add: head_simps split: sum.splits)
  moreover have "set (env_reads (events_of (create_index L documents vector_store) s))
        \<subseteq> {''AWS_BEDROCK_EMBEDDING_MODEL''}"
    unfolding create_index_def pbind_assoc preturn_pbind
    by (simp add: head_simps split: sum.splits)
  ultimately show ?thesis by blast
qed

theorem environment_reads_witness:
  "outcome (main demo_lib) demo_state = Inr (VObj 14)
   \<and> env_reads (events_of (main demo_lib) demo_state) =
          [''AWS_BEDROCK_LLM_MODEL'', ''ELASTIC_HOST'', ''ELASTIC_USERNAME'',
           ''ELASTIC_PASSWORD'', ''INDEX_NAME'', ''AWS_BEDROCK_EMBEDDING_MODEL'']
   \<and> set (env_reads (events_of (main demo_lib) demo_state)) = set config_vars"
  using environment_reads[where L = demo_lib and s = demo_state
      and documents = "VObj 3" and vector_store = "VObj 4"] demo_outcome
  by blast

section \<open>The agent's tools\<close>

text \<open>
  Claim C8. \<^verbatim>\<open>get_react_agent\<close> passes the agent constructor one list of exactly its
  three arguments. In every run of the cell each call of the agent constructor has as
  its only positional argument the list of the tool built from \<^verbatim>\<open>multiply\<close>, the tool
  built from \<^verbatim>\<open>add\<close> and a query-engine tool built under the budget tool's name, in this
  order, and a returning run makes exactly one such call.
\<close>

theorem agent_gets_three_tools:
  "get_react_agent L multiply_tool add_tool budget_tool s =
     (ext_call L ''ReActAgent.from_tools'' [VList [multiply_tool, add_tool, budget_tool]]
        [(''verbose'', VBool True)],
      ext_write L ''ReActAgent.from_tools'' [VList [multiply_tool, add_tool, budget_tool]]
        [(''verbose'', VBool True)] s,
      [Call ''ReActAgent.from_tools'' [VList [multiply_tool, add_tool, budget_tool]]
         [(''verbose'', VBool True)]])
   \<and> list_all (\<lambda>(a, k). three_tools L a k)
        (calls_named ''ReActAgent.from_tools'' (events_of (main L) s))
   \<and> (\<forall>response. outcome (main L) s = Inr response \<longrightarrow>
        length (calls_named ''ReActAgent.from_tools'' (events_of (main L) s)) = 1)"
proof -
  have "get_react_agent L multiply_tool add_tool budget_tool s =
     (ext_call L ''ReActAgent.from_tools'' [VList [multiply_tool, add_tool, budget_tool]]
        [(''verbose'', VBool True)],
      ext_write L ''ReActAgent.from_tools'' [VList [multiply_tool, add_tool, budget_tool]]
        [(''verbose'', VBool True)] s,
      [Call ''ReActAgent.from_tools'' [VList [multiply_tool, add_tool, budget_tool]]
         [(''verbose'', VBool True)]])"
    unfolding get_react_agent_def pbind_assoc preturn_pbind
    by (simp add: run_simps preturn_def split: sum.splits)
  moreover have "list_all (\<lambda>(a, k). three_tools L a k)
        (calls_named ''ReActAgent.from_tools'' (events_of (main L) s))"
    using main_three_tools[of L] by (simp add: all_events_def calls_named_satisfy)
  moreover have "length (calls_named ''ReActAgent.from_tools'' (events_of (main L) s)) = 1"
    if "outcome (main L) s = Inr response" for response
    using main_success[OF main_returns_triple[OF that]]
    by (elim exE conjE) simp
  ultimately show ?thesis by blast
qed

theorem agent_gets_three_tools_witness:
  "outcome (main demo_lib) demo_state = Inr (VObj 14)
   \<and> calls_named ''ReActAgent.from_tools'' (events_of (main demo_lib) demo_state) =
        [([VList [VObj 9, VObj 10, VObj 12]], [(''verbose'', VBool True)])]
   \<and> three_tools demo_lib [VList [VObj 9, VObj 10, VObj 12]] [(''verbose'', VBool True)]
   \<and> ext_call demo_lib ''FunctionTool.from_defaults'' [] [(''fn'', VFn FnMultiply)]
       = Inr (VObj 9)
   \<and> ext_call demo_lib ''FunctionTool.from_defaults'' [] [(''fn'', VFn FnAdd)]
       = Inr (VObj 10)
   \<and> ext_call demo_lib ''QueryEngineTool.from_defaults'' [VObj 11]
        [(''name'', VStr budget_tool_name), (''description'', VStr budget_tool_description)]
       = Inr (VObj 12)"
  using agent_gets_three_tools[where L = demo_lib and s = demo_state
      and multiply_tool = "VObj 9" and add_tool = "VObj 10" and budget_tool = "VObj 12"]
  by (simp add: demo_outcome demo_events_of demo_events_def demo_ext demo_call_simps)

section \<open>The arithmetic helpers\<close>

text \<open>
  Claim C1. For all real numbers \<open>a\<close> and \<open>b\<close>, that is for all finite floats,
  \<^verbatim>\<open>add(a, b) == a + b\<close> and \<^verbatim>\<open>multiply(a, b) == a * b\<close> hold in Python: each helper
  returns the float its operator returns, and no sum or product of finite floats is NaN,
  the only float that \<^verbatim>\<open>==\<close> tells from itself. The result is the exact sum or
  product rounded to binary64: it is that number whenever that number is a binary64
  number; otherwise the last bits are lost (\<^verbatim>\<open>add(1e16, 1.0) == 1e16\<close>) or the result
  overflows (\<^verbatim>\<open>multiply(1e308, 10.0)\<close> is \<^verbatim>\<open>inf\<close>, where \<^verbatim>\<open>1e308\<close> is the float
  \<open>5010420900022432 * 2 ^ 971\<close>). Zero and negative arguments are instances.
\<close>

theorem arithmetic_helpers_compute:
  "(is_finite a \<and> is_finite b \<longrightarrow>
      float_eq (add a b) (float_add a b) \<and> float_eq (multiply a b) (float_mul a b))
   \<and> add a b = float_add a b \<and> multiply a b = float_mul a b
   \<and> (float_eq (add a b) (float_add a b) \<longleftrightarrow> float_add a b \<noteq> NaN)
   \<and> (float_eq (multiply a b) (float_mul a b) \<longleftrightarrow> float_mul a b \<noteq> NaN)
   \<and> (binary64 (m1 * 2 ^ nat (e1 - min e1 e2) + m2 * 2 ^ nat (e2 - min e1 e2)) (min e1 e2)
        \<longrightarrow>
      float_eq (add (Finite m1 e1) (Finite m2 e2))
        (Finite (m1 * 2 ^ nat (e1 - min e1 e2) + m2 * 2 ^ nat (e2 - min e1 e2)) (min e1 e2)))
   \<and> (binary64 (m1 * m2) (e1 + e2) \<longrightarrow>
      float_eq (multiply (Finite m1 e1) (Finite m2 e2)) (Finite (m1 * m2) (e1 + e2)))
   \<and> float_eq (add (float_of_int (10 ^ 16)) (float_of_int 1)) (float_of_int (10 ^ 16))
   \<and> multiply (Finite 5010420900022432 971) (float_of_int 10) = PosInf
   \<and> float_eq (add (float_of_int (- 3)) (float_of_int 3)) (float_of_int 0)
   \<and> float_eq (multiply (float_of_int (- 2)) (float_of_int 3)) (float_of_int (- 6))
   \<and> float_eq (multiply (float_of_int (- 2)) (float_of_int 0)) (float_of_int 0)
   \<and> pyfn_apply FnAdd a b = float_add a b \<and> pyfn_apply FnMultiply a b = float_mul a b"
proof -
  have finite: "float_eq (add a b) (float_add a b) \<and> float_eq (multiply a b) (float_mul a b)"
    if "is_finite a \<and> is_finite b"
    using that
    by (simp add: add_def multiply_def float_eq_refl float_add_finite float_mul_finite)
  have same: "add a b = float_add a b" "multiply a b = float_mul a b"
    "pyfn_apply FnAdd a b = float_add a b" "pyfn_apply FnMultiply a b = float_mul a b"
    by (simp_all add: add_def multiply_def)
  have nan: "float_eq (add a b) (float_add a b) \<longleftrightarrow> float_add a b \<noteq> NaN"
    "float_eq (multiply a b) (float_mul a b) \<longleftrightarrow> float_mul a b \<noteq> NaN"
    by (simp_all add: add_def multiply_def float_eq_refl)
  have exact_sum: "float_eq (add (Finite m1 e1) (Finite m2 e2))
        (Finite (m1 * 2 ^ nat (e1 - min e1 e2) + m2 * 2 ^ nat (e2 - min e1 e2)) (min e1 e2))"
    if "binary64 (m1 * 2 ^ nat (e1 - min e1 e2) + m2 * 2 ^ nat (e2 - min e1 e2)) (min e1 e2)"
    using round64_exact[OF that] by (simp add: add_def)
  have exact_product:
    "float_eq (multiply (Finite m1 e1) (Finite m2 e2)) (Finite (m1 * m2) (e1 + e2))"
    if "binary64 (m1 * m2) (e1 + e2)"
    using round64_exact[OF that] by (simp add: multiply_def)
  have absorbed:
    "float_eq (add (float_of_int (10 ^ 16)) (float_of_int 1)) (float_of_int (10 ^ 16))"
    using add_1e16_1 float_1e16 by (simp add: add_def)
  have overflow: "multiply (Finite 5010420900022432 971) (float_of_int 10) = PosInf"
    using mul_1e308_10 by (simp add: multiply_def)
  have cancel: "float_eq (add (float_of_int (- 3)) (float_of_int 3)) (float_of_int 0)"
    using add_m3_3 float_0 by (simp add: add_def)
  have negative:
    "float_eq (multiply (float_of_int (- 2)) (float_of_int 3)) (float_of_int (- 6))"
    using mul_m2_3 float_m6 by (simp add: multiply_def)
  have zero: "float_eq (multiply (float_of_int (- 2)) (float_of_int 0)) (float_of_int 0)"
    using mul_m2_0 float_0 by (simp add: multiply_def)
  from finite same nan exact_sum exact_product absorbed overflow cancel negative zero
  show ?thesis by blast
qed

theorem arithmetic_helpers_compute_witness:
  "is_finite (float_of_int (10 ^ 16)) \<and> is_finite (float_of_int 1)
   \<and> float_eq (add (float_of_int (10 ^ 16)) (float_of_int 1))
        (float_add (float_of_int (10 ^ 16)) (float_of_int 1))
   \<and> float_eq (multiply (float_of_int (10 ^ 16)) (float_of_int 1))
        (float_mul (float_of_int (10 ^ 16)) (float_of_int 1))
   \<and> binary64 8 0
   \<and> float_eq (add (Finite 3 0) (Finite 5 0)) (Finite 8 0)
   \<and> binary64 15 0
   \<and> float_eq (multiply (Finite 3 0) (Finite 5 0)) (Finite 15 0)"
proof -
  have fin: "is_finite (float_of_int (10 ^ 16)) \<and> is_finite (float_of_int 1)"
    using float_1e16 float_1 by simp
  have b8: "binary64 8 0"
    using bit_length_eq[of 3 8] by (simp add: binary64_def)
  have b15: "binary64 15 0"
    using bit_length_eq[of 3 15] by (simp add: binary64_def)
  note helpers = arithmetic_helpers_compute[where a = "float_of_int (10 ^ 16)"
      and b = "float_of_int 1" and ?m1.0 = 3 and ?e1.0 = 0 and ?m2.0 = 5 and ?e2.0 = 0]
  from helpers fin have
    "float_eq (add (float_of_int (10 ^ 16)) (float_of_int 1))
        (float_add (float_of_int (10 ^ 16)) (float_of_int 1))
     \<and> float_eq (multiply (float_of_int (10 ^ 16)) (float_of_int 1))
        (float_mul (float_of_int (10 ^ 16)) (float_of_int 1))"
    by blast
  moreover from helpers b8 have "float_eq (add (Finite 3 0) (Finite 5 0)) (Finite 8 0)"
    by simp
  moreover from helpers b15
  have "float_eq (multiply (Finite 3 0) (Finite 5 0)) (Finite 15 0)"
    by simp
  ultimately show ?thesis using fin b8 b15 by blast
qed




end
